theory Spec2Isabelle
  imports Main
begin

section \<open>The safe calculator (Calculator.py)\<close>

text \<open>
  The evaluator walks the tree that Python's \<open>ast.parse\<close> returns. The parser belongs to
  the host and is not modelled: the tree (or the parser's error message) is the input.
  Python integers are \<open>int\<close>, booleans are \<open>bool\<close>. Floating-point numbers are kept
  abstract: \<open>'f\<close> is the host's float type and every native operation that yields or
  consumes a float is taken from a record of host operations. Exceptions are values:
  an outcome is \<open>Inl\<close> of the exception raised or \<open>Inr\<close> of the value returned.
  The limits of the interpreter (recursion depth, memory) are not modelled.
\<close>

subsection \<open>Values, exceptions and syntax trees\<close>

datatype 'f val =
    VInt int
  | VBool bool
  | VFloat 'f
  | VComplex 'f 'f
  | VTuple "'f val list"

text \<open>The exceptions that reach the caller; \<open>ValueError\<close> carries its message.\<close>

datatype error = ValueError string | ZeroDivisionError | OverflowError | TypeError

fun is_ArithmeticError :: "error \<Rightarrow> bool" where
  "is_ArithmeticError ZeroDivisionError = True"
| "is_ArithmeticError OverflowError = True"
| "is_ArithmeticError _ = False"

text \<open>The value of an \<open>ast.Constant\<close> node.\<close>

datatype 'f py_constant =
    CInt int
  | CFloat 'f
  | CBool bool
  | CComplex 'f
  | CStr string
  | CBytes string
  | CNone
  | CEllipsis

datatype operator =
    Add | Sub | Mult | MatMult | Div | Mod | Pow
  | LShift | RShift | BitOr | BitXor | BitAnd | FloorDiv

datatype unaryop = Invert | Not | UAdd | USub

datatype cmpop = Eq | NotEq | Lt | LtE | Gt | GtE | Is | IsNot | In | NotIn

datatype boolop = And | Or

text \<open>
  The expression nodes that \<open>_eval_expr\<close> tells apart, with the fields of the \<open>ast\<close>
  classes in their order. \<open>Unsupported\<close> stands for every other node class and carries
  the class name. A keyword argument is its optional name and its value.
\<close>

datatype 'f expr =
    Constant "'f py_constant"
  | Name string
  | BinOp "'f expr" operator "'f expr"
  | UnaryOp unaryop "'f expr"
  | Call "'f expr" "'f expr list" "(string option \<times> 'f expr) list"
  | Compare "'f expr" "cmpop list" "'f expr list"
  | BoolOp boolop "'f expr list"
  | IfExp "'f expr" "'f expr" "'f expr"
  | Tuple "'f expr list"
  | Unsupported string

datatype 'f stmt =
    Expr "'f expr"
  | Assign "'f expr list" "'f expr"
  | OtherStmt string

type_synonym 'f env = "string \<rightharpoonup> 'f val"

subsection \<open>The host's native operations\<close>

text \<open>
  What the Python runtime supplies and the calculator only calls: the operators on
  operands that are not both integers, the whitelisted functions, the test of a float
  against zero, the test whether an integer is too large to be converted to a float
  (the conversion then raises \<open>OverflowError\<close>) and the three float constants.
\<close>

record 'f host =
  h_binop :: "operator \<Rightarrow> 'f val \<Rightarrow> 'f val \<Rightarrow> error + 'f val"
  h_unop :: "unaryop \<Rightarrow> 'f val \<Rightarrow> error + 'f val"
  h_cmp :: "cmpop \<Rightarrow> 'f val \<Rightarrow> 'f val \<Rightarrow> error + bool"
  h_call :: "string \<Rightarrow> 'f val list \<Rightarrow> error + 'f val"
  h_fzero :: "'f \<Rightarrow> bool"
  h_int_overflows :: "int \<Rightarrow> bool"
  h_pi :: 'f
  h_e :: 'f
  h_tau :: 'f

text \<open>\<open>bool\<close> is a subclass of \<open>int\<close>: \<open>True\<close> counts as 1 and \<open>False\<close> as 0.\<close>

fun as_int :: "'f val \<Rightarrow> int option" where
  "as_int (VInt n) = Some n"
| "as_int (VBool b) = Some (if b then 1 else 0)"
| "as_int _ = None"

fun real_number :: "'f val \<Rightarrow> bool" where
  "real_number (VInt n) = True"
| "real_number (VBool b) = True"
| "real_number (VFloat x) = True"
| "real_number _ = False"

fun is_zero :: "'f host \<Rightarrow> 'f val \<Rightarrow> bool" where
  "is_zero H (VInt n) = (n = 0)"
| "is_zero H (VBool b) = (\<not> b)"
| "is_zero H (VFloat x) = h_fzero H x"
| "is_zero H (VComplex re im) = (h_fzero H re \<and> h_fzero H im)"
| "is_zero H (VTuple xs) = False"

text \<open>Python's truth value of a value: \<open>bool(v)\<close>.\<close>

fun truthy :: "'f host \<Rightarrow> 'f val \<Rightarrow> bool" where
  "truthy H (VInt n) = (n \<noteq> 0)"
| "truthy H (VBool b) = b"
| "truthy H (VFloat x) = (\<not> h_fzero H x)"
| "truthy H (VComplex re im) = (\<not> (h_fzero H re \<and> h_fzero H im))"
| "truthy H (VTuple xs) = (xs \<noteq> [])"

text \<open>
  What \<open>/\<close>, \<open>//\<close> and \<open>%\<close> raise for a real dividend over a real divisor that is
  zero. With two integers the divisor is tested first. Otherwise both operands are
  converted to floats, the left one first, and the divisor is tested after that: an
  integer dividend that is too large for a float raises \<open>OverflowError\<close> before the
  zero divisor is seen (\<open>10**400 / 0.0\<close>). A boolean or a zero always converts.
\<close>

fun zero_division_error :: "'f host \<Rightarrow> 'f val \<Rightarrow> 'f val \<Rightarrow> error" where
  "zero_division_error H (VInt n) (VFloat z) =
     (if h_int_overflows H n then OverflowError else ZeroDivisionError)"
| "zero_division_error H a b = ZeroDivisionError"

text \<open>
  The functions of the \<open>operator\<close> module. On two integers (booleans included) the
  result is computed here when it is an integer: Python's \<open>//\<close> and \<open>%\<close> round towards
  minus infinity, as \<open>div\<close> and \<open>mod\<close> on \<open>int\<close> do, and \<open>**\<close> with an exponent that
  is not negative is the integer power. Division and modulo of real numbers by zero
  raise the error above. Everything else is the host's: every result that is a float
  (so \<open>/\<close> with a divisor that is not zero, and \<open>**\<close> with a negative exponent, whatever
  it returns or raises), and every operand that is a float, a complex number or a tuple.
\<close>

definition op_add :: "'f host \<Rightarrow> 'f val \<Rightarrow> 'f val \<Rightarrow> error + 'f val" where
  "op_add H a b =
     (case (as_int a, as_int b) of
        (Some x, Some y) \<Rightarrow> Inr (VInt (x + y))
      | _ \<Rightarrow> h_binop H Add a b)"

definition op_sub :: "'f host \<Rightarrow> 'f val \<Rightarrow> 'f val \<Rightarrow> error + 'f val" where
  "op_sub H a b =
     (case (as_int a, as_int b) of
        (Some x, Some y) \<Rightarrow> Inr (VInt (x - y))
      | _ \<Rightarrow> h_binop H Sub a b)"

definition op_mul :: "'f host \<Rightarrow> 'f val \<Rightarrow> 'f val \<Rightarrow> error + 'f val" where
  "op_mul H a b =
     (case (as_int a, as_int b) of
        (Some x, Some y) \<Rightarrow> Inr (VInt (x * y))
      | _ \<Rightarrow> h_binop H Mult a b)"

definition op_truediv :: "'f host \<Rightarrow> 'f val \<Rightarrow> 'f val \<Rightarrow> error + 'f val" where
  "op_truediv H a b =
     (if real_number a \<and> real_number b \<and> is_zero H b then Inl (zero_division_error H a b)
      else h_binop H Div a b)"

definition op_floordiv :: "'f host \<Rightarrow> 'f val \<Rightarrow> 'f val \<Rightarrow> error + 'f val" where
  "op_floordiv H a b =
     (if real_number a \<and> real_number b \<and> is_zero H b then Inl (zero_division_error H a b)
      else (case (as_int a, as_int b) of
        (Some x, Some y) \<Rightarrow> Inr (VInt (x div y))
      | _ \<Rightarrow> h_binop H FloorDiv a b))"

definition op_mod :: "'f host \<Rightarrow> 'f val \<Rightarrow> 'f val \<Rightarrow> error + 'f val" where
  "op_mod H a b =
     (if real_number a \<and> real_number b \<and> is_zero H b then Inl (zero_division_error H a b)
      else (case (as_int a, as_int b) of
        (Some x, Some y) \<Rightarrow> Inr (VInt (x mod y))
      | _ \<Rightarrow> h_binop H Mod a b))"

definition op_pow :: "'f host \<Rightarrow> 'f val \<Rightarrow> 'f val \<Rightarrow> error + 'f val" where
  "op_pow H a b =
     (case (as_int a, as_int b) of
        (Some x, Some y) \<Rightarrow>
          if 0 \<le> y then Inr (VInt (x ^ nat y))
          else h_binop H Pow a b
      | _ \<Rightarrow> h_binop H Pow a b)"

definition op_pos :: "'f host \<Rightarrow> 'f val \<Rightarrow> error + 'f val" where
  "op_pos H a = (case as_int a of Some x \<Rightarrow> Inr (VInt x) | None \<Rightarrow> h_unop H UAdd a)"

definition op_neg :: "'f host \<Rightarrow> 'f val \<Rightarrow> error + 'f val" where
  "op_neg H a = (case as_int a of Some x \<Rightarrow> Inr (VInt (- x)) | None \<Rightarrow> h_unop H USub a)"

definition op_eq :: "'f host \<Rightarrow> 'f val \<Rightarrow> 'f val \<Rightarrow> error + bool" where
  "op_eq H a b =
     (case (as_int a, as_int b) of (Some x, Some y) \<Rightarrow> Inr (x = y) | _ \<Rightarrow> h_cmp H Eq a b)"

definition op_ne :: "'f host \<Rightarrow> 'f val \<Rightarrow> 'f val \<Rightarrow> error + bool" where
  "op_ne H a b =
     (case (as_int a, as_int b) of (Some x, Some y) \<Rightarrow> Inr (x \<noteq> y) | _ \<Rightarrow> h_cmp H NotEq a b)"

definition op_lt :: "'f host \<Rightarrow> 'f val \<Rightarrow> 'f val \<Rightarrow> error + bool" where
  "op_lt H a b =
     (case (as_int a, as_int b) of (Some x, Some y) \<Rightarrow> Inr (x < y) | _ \<Rightarrow> h_cmp H Lt a b)"

definition op_le :: "'f host \<Rightarrow> 'f val \<Rightarrow> 'f val \<Rightarrow> error + bool" where
  "op_le H a b =
     (case (as_int a, as_int b) of (Some x, Some y) \<Rightarrow> Inr (x \<le> y) | _ \<Rightarrow> h_cmp H LtE a b)"

definition op_gt :: "'f host \<Rightarrow> 'f val \<Rightarrow> 'f val \<Rightarrow> error + bool" where
  "op_gt H a b =
     (case (as_int a, as_int b) of (Some x, Some y) \<Rightarrow> Inr (x > y) | _ \<Rightarrow> h_cmp H Gt a b)"

definition op_ge :: "'f host \<Rightarrow> 'f val \<Rightarrow> 'f val \<Rightarrow> error + bool" where
  "op_ge H a b =
     (case (as_int a, as_int b) of (Some x, Some y) \<Rightarrow> Inr (x \<ge> y) | _ \<Rightarrow> h_cmp H GtE a b)"

subsection \<open>The tables of allowed operators, functions and constants\<close>

fun BIN_OPS :: "'f host \<Rightarrow> operator \<Rightarrow> ('f val \<Rightarrow> 'f val \<Rightarrow> error + 'f val) option" where
  "BIN_OPS H Add = Some (op_add H)"
| "BIN_OPS H Sub = Some (op_sub H)"
| "BIN_OPS H Mult = Some (op_mul H)"
| "BIN_OPS H Div = Some (op_truediv H)"
| "BIN_OPS H FloorDiv = Some (op_floordiv H)"
| "BIN_OPS H Mod = Some (op_mod H)"
| "BIN_OPS H Pow = Some (op_pow H)"
| "BIN_OPS H _ = None"

fun UNARY_OPS :: "'f host \<Rightarrow> unaryop \<Rightarrow> ('f val \<Rightarrow> error + 'f val) option" where
  "UNARY_OPS H UAdd = Some (op_pos H)"
| "UNARY_OPS H USub = Some (op_neg H)"
| "UNARY_OPS H _ = None"

fun CMP_OPS :: "'f host \<Rightarrow> cmpop \<Rightarrow> ('f val \<Rightarrow> 'f val \<Rightarrow> error + bool) option" where
  "CMP_OPS H Eq = Some (op_eq H)"
| "CMP_OPS H NotEq = Some (op_ne H)"
| "CMP_OPS H Lt = Some (op_lt H)"
| "CMP_OPS H LtE = Some (op_le H)"
| "CMP_OPS H Gt = Some (op_gt H)"
| "CMP_OPS H GtE = Some (op_ge H)"
| "CMP_OPS H _ = None"

definition allowed_func_names :: "string list" where
  "allowed_func_names =
     [''abs'', ''round'', ''sqrt'', ''sin'', ''cos'', ''tan'',
      ''log'', ''log10'', ''exp'', ''pow'', ''max'', ''min'']"

definition ALLOWED_FUNCS :: "'f host \<Rightarrow> string \<Rightarrow> ('f val list \<Rightarrow> error + 'f val) option" where
  "ALLOWED_FUNCS H name =
     (if name \<in> set allowed_func_names then Some (h_call H name) else None)"

definition ALLOWED_CONSTS :: "'f host \<Rightarrow> string \<Rightarrow> 'f val option" where
  "ALLOWED_CONSTS H =
     [''pi'' \<mapsto> VFloat (h_pi H), ''e'' \<mapsto> VFloat (h_e H), ''tau'' \<mapsto> VFloat (h_tau H)]"

fun operator_name :: "operator \<Rightarrow> string" where
  "operator_name Add = ''Add''"
| "operator_name Sub = ''Sub''"
| "operator_name Mult = ''Mult''"
| "operator_name MatMult = ''MatMult''"
| "operator_name Div = ''Div''"
| "operator_name Mod = ''Mod''"
| "operator_name Pow = ''Pow''"
| "operator_name LShift = ''LShift''"
| "operator_name RShift = ''RShift''"
| "operator_name BitOr = ''BitOr''"
| "operator_name BitXor = ''BitXor''"
| "operator_name BitAnd = ''BitAnd''"
| "operator_name FloorDiv = ''FloorDiv''"

fun unaryop_name :: "unaryop \<Rightarrow> string" where
  "unaryop_name Invert = ''Invert''"
| "unaryop_name Not = ''Not''"
| "unaryop_name UAdd = ''UAdd''"
| "unaryop_name USub = ''USub''"

subsection \<open>\<open>SafeEval._eval_expr\<close>\<close>

text \<open>
  \<open>_eval_expr\<close> returns a value or raises; it only reads \<open>self.vars\<close>. The model returns
  the outcome together with a log that the Python does not keep: one \<open>Enter\<close> for every
  call of \<open>_eval_expr\<close> on a node and one \<open>Invoke\<close> for every call of a whitelisted
  function, in the order in which they happen. The log is what makes the order of
  evaluation and the short cuts visible; the second component is what Python returns.
\<close>

datatype 'f event = Enter "'f expr" | Invoke string "'f val list"

type_synonym ('f, 'a) outcome = "'f event list \<times> (error + 'a)"

definition enter :: "'f expr \<Rightarrow> ('f, 'a) outcome \<Rightarrow> ('f, 'a) outcome" where
  "enter node m = (Enter node # fst m, snd m)"

text \<open>Run \<open>m\<close>; when it raises stop there, otherwise go on with \<open>f\<close> on its value.\<close>

definition and_then :: "('f, 'a) outcome \<Rightarrow> ('a \<Rightarrow> ('f, 'b) outcome) \<Rightarrow> ('f, 'b) outcome" where
  "and_then m f =
     (case snd m of
        Inl e \<Rightarrow> (fst m, Inl e)
      | Inr a \<Rightarrow> (fst m @ fst (f a), snd (f a)))"

definition ret :: "error + 'a \<Rightarrow> ('f, 'a) outcome" where
  "ret r = ([], r)"

lemma and_then_cong [fundef_cong]:
  "m = m' \<Longrightarrow> (\<And>a. snd m' = Inr a \<Longrightarrow> f a = f' a) \<Longrightarrow> and_then m f = and_then m' f'"
  by (auto simp: and_then_def split: sum.splits)

fun const_value :: "'f py_constant \<Rightarrow> 'f val option" where
  "const_value (CInt n) = Some (VInt n)"
| "const_value (CFloat x) = Some (VFloat x)"
| "const_value (CBool b) = Some (VBool b)"
| "const_value _ = None"

fun eval_expr :: "'f host \<Rightarrow> 'f env \<Rightarrow> 'f expr \<Rightarrow> ('f, 'f val) outcome"
  and eval_list :: "'f host \<Rightarrow> 'f env \<Rightarrow> 'f expr list \<Rightarrow> ('f, 'f val list) outcome"
  and eval_chain ::
    "'f host \<Rightarrow> 'f env \<Rightarrow> 'f val \<Rightarrow> cmpop list \<Rightarrow> 'f expr list \<Rightarrow> ('f, 'f val) outcome"
  and eval_and :: "'f host \<Rightarrow> 'f env \<Rightarrow> 'f expr list \<Rightarrow> ('f, 'f val) outcome"
  and eval_or :: "'f host \<Rightarrow> 'f env \<Rightarrow> 'f expr list \<Rightarrow> ('f, 'f val) outcome"
where
  "eval_expr H env (Constant c) = enter (Constant c)
     (case const_value c of
        Some v \<Rightarrow> ret (Inr v)
      | None \<Rightarrow> ret (Inl (ValueError ''Only numeric and boolean constants are allowed.'')))"
| "eval_expr H env (Name ident) = enter (Name ident)
     (case env ident of
        Some v \<Rightarrow> ret (Inr v)
      | None \<Rightarrow>
         (case ALLOWED_CONSTS H ident of
            Some c \<Rightarrow> ret (Inr c)
          | None \<Rightarrow> ret (Inl (ValueError (''Unknown variable or constant: '' @ ident)))))"
| "eval_expr H env (BinOp l oper r) = enter (BinOp l oper r)
     (and_then (eval_expr H env l) (\<lambda>left.
      and_then (eval_expr H env r) (\<lambda>right.
        case BIN_OPS H oper of
          Some f \<Rightarrow> ret (f left right)
        | None \<Rightarrow> ret (Inl (ValueError (''Operator not allowed: '' @ operator_name oper))))))"
| "eval_expr H env (UnaryOp oper e) = enter (UnaryOp oper e)
     (and_then (eval_expr H env e) (\<lambda>operand.
        case UNARY_OPS H oper of
          Some f \<Rightarrow> ret (f operand)
        | None \<Rightarrow> ret (Inl (ValueError (''Unary operator not allowed: '' @ unaryop_name oper)))))"
| "eval_expr H env (Call func args keywords) = enter (Call func args keywords)
     (case func of
        Name func_name \<Rightarrow>
          (case ALLOWED_FUNCS H func_name of
             None \<Rightarrow> ret (Inl (ValueError (''Function not allowed: '' @ func_name)))
           | Some f \<Rightarrow>
               and_then (eval_list H env args) (\<lambda>vs.
                 if keywords \<noteq> [] then ret (Inl (ValueError ''Keyword arguments are not allowed.''))
                 else ([Invoke func_name vs], f vs)))
      | _ \<Rightarrow> ret (Inl (ValueError ''Only direct function calls are allowed.'')))"
| "eval_expr H env (Compare l ops comparators) = enter (Compare l ops comparators)
     (if length ops \<noteq> 1 \<or> length comparators \<noteq> 1 then
        and_then (eval_expr H env l) (\<lambda>left_val. eval_chain H env left_val ops comparators)
      else
        and_then (eval_expr H env l) (\<lambda>left.
        and_then (eval_list H env comparators) (\<lambda>rights.
          case CMP_OPS H (hd ops) of
            Some f \<Rightarrow> ret (map_sum id VBool (f left (hd rights)))
          | None \<Rightarrow> ret (Inl (ValueError ''Comparison operator not allowed.'')))))"
| "eval_expr H env (BoolOp And vs) = enter (BoolOp And vs) (eval_and H env vs)"
| "eval_expr H env (BoolOp Or vs) = enter (BoolOp Or vs) (eval_or H env vs)"
| "eval_expr H env (IfExp test body orelse) = enter (IfExp test body orelse)
     (and_then (eval_expr H env test) (\<lambda>t.
        if truthy H t then eval_expr H env body else eval_expr H env orelse))"
| "eval_expr H env (Tuple elts) = enter (Tuple elts)
     (and_then (eval_list H env elts) (\<lambda>vs. ret (Inr (VTuple vs))))"
| "eval_expr H env (Unsupported cls) = enter (Unsupported cls)
     (ret (Inl (ValueError (''Unsupported expression: '' @ cls))))"
| "eval_list H env [] = ret (Inr [])"
| "eval_list H env (a # as) =
     and_then (eval_expr H env a) (\<lambda>v.
     and_then (eval_list H env as) (\<lambda>vs. ret (Inr (v # vs))))"
| "eval_chain H env current_left (op_node # ops) (comp_node # comparators) =
     and_then (eval_expr H env comp_node) (\<lambda>right_val.
       case CMP_OPS H op_node of
         None \<Rightarrow> ret (Inl (ValueError ''Comparison operator not allowed.''))
       | Some f \<Rightarrow>
          (case f current_left right_val of
             Inl e \<Rightarrow> ret (Inl e)
           | Inr b \<Rightarrow>
               if \<not> b then ret (Inr (VBool False))
               else eval_chain H env right_val ops comparators))"
| "eval_chain H env current_left _ _ = ret (Inr (VBool True))"
| "eval_and H env [] = ret (Inr (VBool True))"
| "eval_and H env (v # vs) =
     and_then (eval_expr H env v) (\<lambda>x.
       if \<not> truthy H x then ret (Inr (VBool False)) else eval_and H env vs)"
| "eval_or H env [] = ret (Inr (VBool False))"
| "eval_or H env (v # vs) =
     and_then (eval_expr H env v) (\<lambda>x.
       if truthy H x then ret (Inr (VBool True)) else eval_or H env vs)"

text \<open>
  In the branch of a single comparison the list of comparators has one element, so
  evaluating the list is evaluating \<open>node.comparators[0]\<close>; \<open>eval_expr_single_compare\<close>
  below states the branch with that element.
\<close>

text \<open>The outcome of \<open>_eval_expr\<close> alone: the value returned or the exception raised.\<close>

definition eval_value :: "'f host \<Rightarrow> 'f env \<Rightarrow> 'f expr \<Rightarrow> error + 'f val" where
  "eval_value H env node = snd (eval_expr H env node)"

text \<open>
  One link of a comparison, as both branches of the \<open>Compare\<close> rule compute it: the
  operator is looked up in \<open>_CMP_OPS\<close> and applied to the two values.
\<close>

definition cmp_link :: "'f host \<Rightarrow> cmpop \<Rightarrow> 'f val \<Rightarrow> 'f val \<Rightarrow> error + bool" where
  "cmp_link H op_node left right =
     (case CMP_OPS H op_node of
        None \<Rightarrow> Inl (ValueError ''Comparison operator not allowed.'')
      | Some f \<Rightarrow> f left right)"

subsection \<open>\<open>SafeEval.eval\<close>\<close>

text \<open>
  The input is what \<open>ast.parse\<close> gives: the message of its \<open>SyntaxError\<close> or the body
  of the module. The environment \<open>self.vars\<close> is passed in and returned; the result is
  \<open>None\<close> or a value.
\<close>

fun single_expr :: "'f stmt list \<Rightarrow> 'f expr option" where
  "single_expr [Expr v] = Some v"
| "single_expr _ = None"

fun exec_body ::
  "'f host \<Rightarrow> 'f env \<Rightarrow> 'f val option \<Rightarrow> 'f stmt list \<Rightarrow> 'f env \<times> (error + 'f val option)"
where
  "exec_body H env last_value [] = (env, Inr last_value)"
| "exec_body H env last_value (Assign targets e # rest) =
     (if length targets \<noteq> 1 then
        (env, Inl (ValueError ''Only single-target assignment is allowed.''))
      else (case hd targets of
        Name ident \<Rightarrow>
          (case eval_value H env e of
             Inl err \<Rightarrow> (env, Inl err)
           | Inr v \<Rightarrow> exec_body H (env(ident \<mapsto> v)) (Some v) rest)
      | _ \<Rightarrow> (env, Inl (ValueError ''Can only assign to variable names.''))))"
| "exec_body H env last_value (Expr e # rest) =
     (case eval_value H env e of
        Inl err \<Rightarrow> (env, Inl err)
      | Inr v \<Rightarrow> exec_body H env (Some v) rest)"
| "exec_body H env last_value (OtherStmt cls # rest) =
     (env, Inl (ValueError ''Only expressions and simple assignments are allowed.''))"

definition eval ::
  "'f host \<Rightarrow> 'f env \<Rightarrow> string + 'f stmt list \<Rightarrow> 'f env \<times> (error + 'f val option)"
where
  "eval H env parsed =
     (case parsed of
        Inl msg \<Rightarrow> (env, Inl (ValueError (''Syntax error: '' @ msg)))
      | Inr body \<Rightarrow>
          if body = [] then (env, Inr None)
          else (case single_expr body of
            Some e \<Rightarrow> (env, map_sum id Some (eval_value H env e))
          | None \<Rightarrow> exec_body H env None body))"

subsection \<open>The evaluator object and the caller's dictionary\<close>

text \<open>
  Dictionaries are objects: a store holds them by address, so that the dictionary a
  caller passes to \<open>SafeEval(variables)\<close> and the one the evaluator keeps in \<open>self.vars\<close>
  can be told apart. \<open>__init__\<close> allocates a new dictionary, empty or a copy of the
  caller's (\<open>dict(variables)\<close>); \<open>eval\<close> writes into the one \<open>self.vars\<close> refers to.
  A reference always points to an object of the store.
\<close>

type_synonym ref = nat

type_synonym 'f store = "'f env list"

record SafeEval =
  vars :: ref

definition SafeEval_init :: "'f store \<Rightarrow> ref option \<Rightarrow> 'f store \<times> SafeEval" where
  "SafeEval_init st variables =
     (st @ [case variables of None \<Rightarrow> Map.empty | Some r \<Rightarrow> st ! r], \<lparr>vars = length st\<rparr>)"

definition SafeEval_eval ::
  "'f host \<Rightarrow> 'f store \<Rightarrow> SafeEval \<Rightarrow> string + 'f stmt list \<Rightarrow> 'f store \<times> (error + 'f val option)"
where
  "SafeEval_eval H st self parsed =
     (st[vars self := fst (eval H (st ! vars self) parsed)],
      snd (eval H (st ! vars self) parsed))"

text \<open>
  Building an evaluator from the caller's dictionary and evaluating one input with it,
  as in \<open>SafeEval(variables).eval(expr)\<close>: the final store, the evaluator and the
  outcome.
\<close>

definition SafeEval_run ::
  "'f host \<Rightarrow> 'f store \<Rightarrow> ref option \<Rightarrow> string + 'f stmt list
     \<Rightarrow> 'f store \<times> SafeEval \<times> (error + 'f val option)"
where
  "SafeEval_run H st variables parsed =
     (fst (SafeEval_eval H (fst (SafeEval_init st variables))
             (snd (SafeEval_init st variables)) parsed),
      snd (SafeEval_init st variables),
      snd (SafeEval_eval H (fst (SafeEval_init st variables))
             (snd (SafeEval_init st variables)) parsed))"

subsection \<open>A host for the integer examples\<close>

text \<open>
  The examples below use integers. The float type of this host is \<open>unit\<close>: it has
  one float, which is zero, and an integer of magnitude \<open>2 ^ 1024\<close> or more is too
  large to be converted. \<open>abs\<close> and \<open>max\<close> work on integers and every other native
  operation raises \<open>TypeError\<close>.
\<close>

fun int_call :: "string \<Rightarrow> unit val list \<Rightarrow> error + unit val" where
  "int_call name [VInt n] = (if name = ''abs'' then Inr (VInt \<bar>n\<bar>) else Inl TypeError)"
| "int_call name [VInt m, VInt n] = (if name = ''max'' then Inr (VInt (max m n)) else Inl TypeError)"
| "int_call name _ = Inl TypeError"

definition int_host :: "unit host" where
  "int_host =
     \<lparr>h_binop = (\<lambda>_ _ _. Inl TypeError), h_unop = (\<lambda>_ _. Inl TypeError),
      h_cmp = (\<lambda>_ _ _. Inl TypeError), h_call = int_call,
      h_fzero = (\<lambda>_. True), h_int_overflows = (\<lambda>n. 2 ^ 1024 \<le> \<bar>n\<bar>),
      h_pi = (), h_e = (), h_tau = ()\<rparr>"

section \<open>Basic facts\<close>

lemma enter_pair [simp]: "enter node (t, r) = (Enter node # t, r)"
  by (simp add: enter_def)

lemma ret_pair [simp]: "ret r = ([], r)"
  by (simp add: ret_def)

lemma and_then_Inl [simp]: "and_then (t, Inl e) f = (t, Inl e)"
  by (simp add: and_then_def)

lemma and_then_Inr [simp]: "and_then (t, Inr a) f = (t @ fst (f a), snd (f a))"
  by (simp add: and_then_def)

lemma fst_enter [simp]: "fst (enter node m) = Enter node # fst m"
  by (simp add: enter_def)

lemma snd_enter [simp]: "snd (enter node m) = snd m"
  by (simp add: enter_def)

lemma int_host_simps [simp]:
  "h_binop int_host = (\<lambda>_ _ _. Inl TypeError)"
  "h_unop int_host = (\<lambda>_ _. Inl TypeError)"
  "h_cmp int_host = (\<lambda>_ _ _. Inl TypeError)"
  "h_call int_host = int_call"
  "h_fzero int_host = (\<lambda>_. True)"
  "h_int_overflows int_host = (\<lambda>n. 2 ^ 1024 \<le> \<bar>n\<bar>)"
  by (simp_all add: int_host_def)

lemma eval_expr_single_compare:
  "eval_expr H env (Compare l [op_node] [comp_node]) = enter (Compare l [op_node] [comp_node])
     (and_then (eval_expr H env l) (\<lambda>left.
      and_then (eval_expr H env comp_node) (\<lambda>right.
        case CMP_OPS H op_node of
          Some f \<Rightarrow> ret (map_sum id VBool (f left right))
        | None \<Rightarrow> ret (Inl (ValueError ''Comparison operator not allowed.'')))))"
  by (cases "eval_expr H env l"; cases "eval_expr H env comp_node")
     (auto simp: and_then_def split: sum.splits option.splits)

lemma eval_is_exec: "eval H env (Inr body) = exec_body H env None body"
proof (cases "single_expr body")
  case None
  then show ?thesis by (auto simp: eval_def)
next
  case (Some e)
  then have "body = [Expr e]"
    by (induction body rule: single_expr.induct) auto
  then show ?thesis
    by (auto simp: eval_def split: sum.splits)
qed

lemma exec_body_append:
  "exec_body H env lv (ss @ ts) =
     (case snd (exec_body H env lv ss) of
        Inl e \<Rightarrow> exec_body H env lv ss
      | Inr lv1 \<Rightarrow> exec_body H (fst (exec_body H env lv ss)) lv1 ts)"
proof (induction ss arbitrary: env lv)
  case Nil
  show ?case by simp
next
  case (Cons s ss)
  show ?case
  proof (cases s)
    case (Expr e)
    then show ?thesis using Cons by (simp split: sum.splits)
  next
    case (Assign targets e)
    then show ?thesis using Cons by (simp del: fun_upd_apply split: sum.splits expr.splits)
  next
    case (OtherStmt cls)
    then show ?thesis by simp
  qed
qed

lemma exec_body_failing_head:
  assumes "snd (exec_body H env lv [s]) = Inl err"
  shows "exec_body H env lv (s # rest) = (env, Inl err)"
proof (cases s)
  case (Expr e)
  then show ?thesis using assms by (simp split: sum.splits)
next
  case (Assign targets e)
  then show ?thesis using assms by (simp split: sum.splits expr.splits if_splits)
next
  case (OtherStmt cls)
  then show ?thesis using assms by simp
qed

lemma exec_body_only_exprs:
  "(\<forall>s \<in> set body. \<exists>e. s = Expr e) \<Longrightarrow> fst (exec_body H env lv body) = env"
proof (induction body arbitrary: lv)
  case Nil
  show ?case by simp
next
  case (Cons s body)
  then obtain e where "s = Expr e" by auto
  then show ?case using Cons by (simp split: sum.splits)
qed

lemma exec_body_writes_targets:
  "fst (exec_body H env lv body) x \<noteq> env x \<Longrightarrow> \<exists>e. Assign [Name x] e \<in> set body"
proof (induction body arbitrary: env lv)
  case Nil
  then show ?case by simp
next
  case (Cons s body)
  show ?case
  proof (cases s)
    case (Expr e)
    then show ?thesis using Cons by (auto split: sum.splits)
  next
    case (OtherStmt cls)
    then show ?thesis using Cons by simp
  next
    case (Assign targets e)
    show ?thesis
    proof (cases "length targets \<noteq> 1")
      case True
      then show ?thesis using Cons.prems Assign by simp
    next
      case False
      then obtain t where t: "targets = [t]"
        by (cases targets) auto
      show ?thesis
      proof (cases "\<exists>ident. t = Name ident")
        case False
        then show ?thesis using Cons.prems Assign t by (cases t) auto
      next
        case True
        then obtain ident where ident: "t = Name ident" by blast
        show ?thesis
        proof (cases "eval_value H env e")
          case (Inl err)
          then show ?thesis using Cons.prems Assign t ident by simp
        next
          case (Inr v)
          then have run: "fst (exec_body H (env(ident \<mapsto> v)) (Some v) body) x \<noteq> env x"
            using Cons.prems Assign t ident by simp
          show ?thesis
          proof (cases "x = ident")
            case True
            then show ?thesis using Assign t ident by auto
          next
            case False
            then have "fst (exec_body H (env(ident \<mapsto> v)) (Some v) body) x
                \<noteq> (env(ident \<mapsto> v)) x"
              using run by simp
            from Cons.IH [OF this] show ?thesis by auto
          qed
        qed
      qed
    qed
  qed
qed

lemma and_then_ok: "snd m = Inr a \<Longrightarrow> and_then m f = (fst m @ fst (f a), snd (f a))"
  by (simp add: and_then_def)

lemma and_then_raise: "snd m = Inl e \<Longrightarrow> and_then m f = (fst m, Inl e)"
  by (simp add: and_then_def)

lemma eval_value_BinOp:
  "eval_value H env (BinOp l oper r) =
     (case eval_value H env l of
        Inl e \<Rightarrow> Inl e
      | Inr a \<Rightarrow>
         (case eval_value H env r of
            Inl e \<Rightarrow> Inl e
          | Inr b \<Rightarrow>
             (case BIN_OPS H oper of
                Some f \<Rightarrow> f a b
              | None \<Rightarrow> Inl (ValueError (''Operator not allowed: '' @ operator_name oper)))))"
  by (simp add: eval_value_def and_then_def split: sum.splits option.splits)

lemma as_int_is_zero: "as_int a = Some m \<Longrightarrow> is_zero H a = (m = 0)"
  by (cases a) (auto split: if_splits)

lemma eval_list_ok:
  "(\<forall>i < length args. eval_value H env (args ! i) = Inr (v i)) \<Longrightarrow>
   eval_list H env args =
     (concat (map (\<lambda>a. fst (eval_expr H env a)) args), Inr (map v [0 ..< length args]))"
proof (induction args arbitrary: v)
  case Nil
  show ?case by simp
next
  case (Cons a args)
  have hd: "snd (eval_expr H env a) = Inr (v 0)"
    using Cons.prems by (auto simp: eval_value_def)
  have "\<forall>i < length args. eval_value H env (args ! i) = Inr (v (Suc i))"
    using Cons.prems by auto
  from Cons.IH [of "\<lambda>i. v (Suc i)", OF this]
  have tl: "eval_list H env args =
     (concat (map (\<lambda>a. fst (eval_expr H env a)) args), Inr (map (\<lambda>i. v (Suc i)) [0 ..< length args]))" .
  show ?case
    by (simp add: and_then_ok [OF hd] tl map_upt_Suc del: upt_Suc)
qed

lemma eval_list_first_error:
  "k < length args \<Longrightarrow> (\<forall>i < k. eval_value H env (args ! i) = Inr (v i)) \<Longrightarrow>
   eval_value H env (args ! k) = Inl e \<Longrightarrow>
   eval_list H env args =
     (concat (map (\<lambda>a. fst (eval_expr H env a)) (take (Suc k) args)), Inl e)"
proof (induction args arbitrary: v k)
  case Nil
  then show ?case by simp
next
  case (Cons a args)
  show ?case
  proof (cases k)
    case 0
    then have "snd (eval_expr H env a) = Inl e"
      using Cons.prems by (simp add: eval_value_def)
    then show ?thesis using 0 by (simp add: and_then_raise)
  next
    case (Suc j)
    have hd: "snd (eval_expr H env a) = Inr (v 0)"
      using Cons.prems Suc by (auto simp: eval_value_def)
    have "j < length args" "\<forall>i < j. eval_value H env (args ! i) = Inr (v (Suc i))"
      "eval_value H env (args ! j) = Inl e"
      using Cons.prems Suc by auto
    from Cons.IH [of j "\<lambda>i. v (Suc i)", OF this]
    have tl: "eval_list H env args =
       (concat (map (\<lambda>a. fst (eval_expr H env a)) (take (Suc j) args)), Inl e)" .
    show ?thesis
      using Suc by (simp add: and_then_ok [OF hd] tl)
  qed
qed

lemma eval_and_stop:
  "k < length es \<Longrightarrow> (\<forall>i \<le> k. eval_value H env (es ! i) = Inr (v i)) \<Longrightarrow>
   (\<forall>i < k. truthy H (v i)) \<Longrightarrow> \<not> truthy H (v k) \<Longrightarrow>
   eval_and H env es =
     (concat (map (\<lambda>a. fst (eval_expr H env a)) (take (Suc k) es)), Inr (VBool False))"
proof (induction es arbitrary: v k)
  case Nil
  then show ?case by simp
next
  case (Cons a es)
  have hd: "snd (eval_expr H env a) = Inr (v 0)"
    using Cons.prems(2) by (auto simp: eval_value_def)
  show ?case
  proof (cases k)
    case 0
    then show ?thesis using Cons.prems(4) by (simp add: and_then_ok [OF hd])
  next
    case (Suc j)
    have "j < length es" "\<forall>i \<le> j. eval_value H env (es ! i) = Inr (v (Suc i))"
      "\<forall>i < j. truthy H (v (Suc i))" "\<not> truthy H (v (Suc j))"
      using Cons.prems Suc by auto
    from Cons.IH [of j "\<lambda>i. v (Suc i)", OF this]
    have tl: "eval_and H env es =
       (concat (map (\<lambda>a. fst (eval_expr H env a)) (take (Suc j) es)), Inr (VBool False))" .
    have "truthy H (v 0)"
      using Cons.prems(3) Suc by simp
    then show ?thesis
      using Suc by (simp add: and_then_ok [OF hd] tl)
  qed
qed

lemma eval_and_all:
  "(\<forall>i < length es. eval_value H env (es ! i) = Inr (v i) \<and> truthy H (v i)) \<Longrightarrow>
   eval_and H env es = (concat (map (\<lambda>a. fst (eval_expr H env a)) es), Inr (VBool True))"
proof (induction es arbitrary: v)
  case Nil
  show ?case by simp
next
  case (Cons a es)
  have hd: "snd (eval_expr H env a) = Inr (v 0)" and t: "truthy H (v 0)"
    using Cons.prems by (auto simp: eval_value_def)
  have "\<forall>i < length es. eval_value H env (es ! i) = Inr (v (Suc i)) \<and> truthy H (v (Suc i))"
    using Cons.prems by auto
  from Cons.IH [of "\<lambda>i. v (Suc i)", OF this] t
  show ?case
    by (simp add: and_then_ok [OF hd])
qed

lemma eval_or_stop:
  "k < length es \<Longrightarrow> (\<forall>i \<le> k. eval_value H env (es ! i) = Inr (v i)) \<Longrightarrow>
   (\<forall>i < k. \<not> truthy H (v i)) \<Longrightarrow> truthy H (v k) \<Longrightarrow>
   eval_or H env es =
     (concat (map (\<lambda>a. fst (eval_expr H env a)) (take (Suc k) es)), Inr (VBool True))"
proof (induction es arbitrary: v k)
  case Nil
  then show ?case by simp
next
  case (Cons a es)
  have hd: "snd (eval_expr H env a) = Inr (v 0)"
    using Cons.prems(2) by (auto simp: eval_value_def)
  show ?case
  proof (cases k)
    case 0
    then show ?thesis using Cons.prems(4) by (simp add: and_then_ok [OF hd])
  next
    case (Suc j)
    have "j < length es" "\<forall>i \<le> j. eval_value H env (es ! i) = Inr (v (Suc i))"
      "\<forall>i < j. \<not> truthy H (v (Suc i))" "truthy H (v (Suc j))"
      using Cons.prems Suc by auto
    from Cons.IH [of j "\<lambda>i. v (Suc i)", OF this]
    have tl: "eval_or H env es =
       (concat (map (\<lambda>a. fst (eval_expr H env a)) (take (Suc j) es)), Inr (VBool True))" .
    have "\<not> truthy H (v 0)"
      using Cons.prems(3) Suc by simp
    then show ?thesis
      using Suc by (simp add: and_then_ok [OF hd] tl)
  qed
qed

lemma eval_or_none:
  "(\<forall>i < length es. eval_value H env (es ! i) = Inr (v i) \<and> \<not> truthy H (v i)) \<Longrightarrow>
   eval_or H env es = (concat (map (\<lambda>a. fst (eval_expr H env a)) es), Inr (VBool False))"
proof (induction es arbitrary: v)
  case Nil
  show ?case by simp
next
  case (Cons a es)
  have hd: "snd (eval_expr H env a) = Inr (v 0)" and t: "\<not> truthy H (v 0)"
    using Cons.prems by (auto simp: eval_value_def)
  have "\<forall>i < length es. eval_value H env (es ! i) = Inr (v (Suc i)) \<and> \<not> truthy H (v (Suc i))"
    using Cons.prems by auto
  from Cons.IH [of "\<lambda>i. v (Suc i)", OF this] t
  show ?case
    by (simp add: and_then_ok [OF hd])
qed

lemma eval_and_bool: "snd (eval_and H env es) = Inr r \<Longrightarrow> r = VBool True \<or> r = VBool False"
  by (induction es) (auto simp: and_then_def split: sum.splits if_splits)

lemma eval_or_bool: "snd (eval_or H env es) = Inr r \<Longrightarrow> r = VBool True \<or> r = VBool False"
  by (induction es) (auto simp: and_then_def split: sum.splits if_splits)

lemma eval_chain_run:
  "length ops = length cs \<Longrightarrow> k < length cs \<Longrightarrow>
   (\<forall>i \<le> k. eval_value H env (cs ! i) = Inr (v (Suc i))) \<Longrightarrow>
   (\<forall>i < k. cmp_link H (ops ! i) (v i) (v (Suc i)) = Inr True) \<Longrightarrow>
   cmp_link H (ops ! k) (v k) (v (Suc k)) = Inr b \<Longrightarrow>
   (b \<longrightarrow> Suc k = length cs) \<Longrightarrow>
   eval_chain H env (v 0) ops cs =
     (concat (map (\<lambda>c. fst (eval_expr H env c)) (take (Suc k) cs)), Inr (VBool b))"
proof (induction cs arbitrary: ops k v)
  case Nil
  then show ?case by simp
next
  case (Cons c cs)
  from Cons.prems(1) obtain op_node ops' where ops: "ops = op_node # ops'"
    and len: "length ops' = length cs"
    by (cases ops) auto
  have hd: "snd (eval_expr H env c) = Inr (v (Suc 0))"
    using Cons.prems(3) by (auto simp: eval_value_def)
  show ?case
  proof (cases k)
    case 0
    have link: "cmp_link H op_node (v 0) (v (Suc 0)) = Inr b"
      using Cons.prems(5) 0 ops by simp
    show ?thesis
    proof (cases b)
      case False
      then show ?thesis
        using link 0 ops
        by (simp add: and_then_ok [OF hd] cmp_link_def split: option.splits)
    next
      case True
      then have "cs = []" "ops' = []"
        using Cons.prems(6) 0 len by auto
      then show ?thesis
        using link 0 ops True
        by (simp add: and_then_ok [OF hd] cmp_link_def split: option.splits)
    qed
  next
    case (Suc j)
    have link: "cmp_link H op_node (v 0) (v (Suc 0)) = Inr True"
      using Cons.prems(4) Suc ops by auto
    have "length ops' = length cs" "j < length cs"
      "\<forall>i \<le> j. eval_value H env (cs ! i) = Inr (v (Suc (Suc i)))"
      "\<forall>i < j. cmp_link H (ops' ! i) (v (Suc i)) (v (Suc (Suc i))) = Inr True"
      "cmp_link H (ops' ! j) (v (Suc j)) (v (Suc (Suc j))) = Inr b"
      "b \<longrightarrow> Suc j = length cs"
      using Cons.prems Suc ops len by auto
    from Cons.IH [of ops' j "\<lambda>i. v (Suc i)", OF this]
    have tl: "eval_chain H env (v (Suc 0)) ops' cs =
       (concat (map (\<lambda>c. fst (eval_expr H env c)) (take (Suc j) cs)), Inr (VBool b))" .
    show ?thesis
      using link Suc ops
      by (simp add: and_then_ok [OF hd] tl cmp_link_def split: option.splits)
  qed
qed

lemma zero_division_error_kind:
  "is_ArithmeticError (zero_division_error H a b)
   \<and> (zero_division_error H a b = ZeroDivisionError
        \<or> zero_division_error H a b = OverflowError
          \<and> (\<exists>n z. a = VInt n \<and> b = VFloat z \<and> h_int_overflows H n))"
  by (cases "(H, a, b)" rule: zero_division_error.cases) auto

section \<open>The claims\<close>

subsection \<open>Names and literals\<close>

text \<open>
  C5. A \<open>Name\<close> node is looked up in the environment first, then among the constants
  \<open>pi\<close>, \<open>e\<close> and \<open>tau\<close>; a name in neither raises a \<open>ValueError\<close> whose message ends
  with the name. In particular, after \<open>pi = 1\<close> the expression \<open>pi\<close> evaluates to 1 in the
  environment that the assignment left: the binding shadows the constant.
\<close>

theorem name_lookup_order:
  "eval_value H env (Name n) =
     (case env n of
        Some v \<Rightarrow> Inr v
      | None \<Rightarrow>
          if n = ''pi'' then Inr (VFloat (h_pi H))
          else if n = ''e'' then Inr (VFloat (h_e H))
          else if n = ''tau'' then Inr (VFloat (h_tau H))
          else Inl (ValueError (''Unknown variable or constant: '' @ n)))
   \<and> eval H env (Inr [Assign [Name ''pi''] (Constant (CInt 1))])
        = (env(''pi'' \<mapsto> VInt 1), Inr (Some (VInt 1)))
   \<and> eval H (fst (eval H env (Inr [Assign [Name ''pi''] (Constant (CInt 1))])))
        (Inr [Expr (Name ''pi'')]) = (env(''pi'' \<mapsto> VInt 1), Inr (Some (VInt 1)))"
  by (auto simp: eval_value_def eval_def ALLOWED_CONSTS_def split: option.splits)

text \<open>
  C8, as the code has it. The parser accepts every literal, and the tree keeps it: the
  tree of \<open>'a' if 0 else 1\<close> holds the string \<open>'a'\<close>, and evaluating it returns 1 without
  any error, since the branch with the string is not taken. A literal that is evaluated
  reaches the rule for \<open>Constant\<close> nodes, which rejects it there, with a \<open>ValueError\<close>
  that is not the syntax error of \<open>eval\<close>.
\<close>

theorem string_literal_counterexample:
  "eval int_host Map.empty
     (Inr [Expr (IfExp (Constant (CInt 0)) (Constant (CStr ''a'')) (Constant (CInt 1)))])
     = (Map.empty, Inr (Some (VInt 1)))
   \<and> eval_expr int_host Map.empty (Constant (CStr ''a'')) =
       ([Enter (Constant (CStr ''a''))],
        Inl (ValueError ''Only numeric and boolean constants are allowed.''))"
  by (simp add: eval_def eval_value_def)

text \<open>
  C8, amended. A \<open>Constant\<close> node returns the embedded integer, float or boolean
  unchanged; every other literal is rejected when the node is evaluated, with the
  \<open>ValueError\<close> "Only numeric and boolean constants are allowed.", and a program that
  is such a literal fails with that error and leaves the environment as it was.
\<close>

theorem literal_rule:
  "eval_expr H env (Constant c) =
     ([Enter (Constant c)],
      case c of
        CInt n \<Rightarrow> Inr (VInt n)
      | CFloat x \<Rightarrow> Inr (VFloat x)
      | CBool b \<Rightarrow> Inr (VBool b)
      | _ \<Rightarrow> Inl (ValueError ''Only numeric and boolean constants are allowed.''))
   \<and> (const_value c = None \<longrightarrow>
        eval H env (Inr [Expr (Constant c)]) =
          (env, Inl (ValueError ''Only numeric and boolean constants are allowed.'')))"
  by (cases c) (auto simp: eval_def eval_value_def)

theorem literal_rule_witness:
  "const_value (CStr ''a'' :: unit py_constant) = None
   \<and> eval int_host Map.empty (Inr [Expr (Constant (CStr ''a''))]) =
        (Map.empty, Inl (ValueError ''Only numeric and boolean constants are allowed.''))"
  using literal_rule [of int_host Map.empty "CStr ''a''"] by simp

subsection \<open>Statements and the environment\<close>

text \<open>
  C6. The result of a sequence of statements is the value of its last statement, and an
  assignment has the assigned value and stores it: when the statements before the last
  run without error and leave the environment \<open>env1\<close>, a final expression is evaluated
  in \<open>env1\<close> and its value is the result, and a final assignment binds its value in
  \<open>env1\<close> and returns it. \<open>x = 1; x + 1\<close> returns 2 and leaves \<open>x\<close> bound to 1;
  \<open>x = 5\<close> followed by \<open>x * 2\<close> on the environment it left returns 10.
\<close>

theorem sequence_result:
  assumes "exec_body H env None ss = (env1, Inr lv)"
  shows "eval H env (Inr (ss @ [Expr e])) = (env1, map_sum id Some (eval_value H env1 e))
   \<and> eval H env (Inr (ss @ [Assign [Name x] e])) =
       (case eval_value H env1 e of
          Inl err \<Rightarrow> (env1, Inl err)
        | Inr v \<Rightarrow> (env1(x \<mapsto> v), Inr (Some v)))
   \<and> eval H env' (Inr [Assign [Name ''x''] (Constant (CInt 1)),
                        Expr (BinOp (Name ''x'') Add (Constant (CInt 1)))])
       = (env'(''x'' \<mapsto> VInt 1), Inr (Some (VInt 2)))
   \<and> eval H (fst (eval H env' (Inr [Assign [Name ''x''] (Constant (CInt 5))])))
         (Inr [Expr (BinOp (Name ''x'') Mult (Constant (CInt 2)))])
       = (env'(''x'' \<mapsto> VInt 5), Inr (Some (VInt 10)))"
proof -
  have a: "eval H env (Inr (ss @ [Expr e])) = (env1, map_sum id Some (eval_value H env1 e))"
    using assms by (simp add: eval_is_exec exec_body_append split: sum.splits)
  have b: "eval H env (Inr (ss @ [Assign [Name x] e])) =
       (case eval_value H env1 e of
          Inl err \<Rightarrow> (env1, Inl err)
        | Inr v \<Rightarrow> (env1(x \<mapsto> v), Inr (Some v)))"
    using assms by (simp add: eval_is_exec exec_body_append split: sum.splits)
  have c: "eval H env' (Inr [Assign [Name ''x''] (Constant (CInt 1)),
                        Expr (BinOp (Name ''x'') Add (Constant (CInt 1)))])
       = (env'(''x'' \<mapsto> VInt 1), Inr (Some (VInt 2)))"
    by (simp add: eval_is_exec eval_value_def op_add_def)
  have d: "eval H (fst (eval H env' (Inr [Assign [Name ''x''] (Constant (CInt 5))])))
         (Inr [Expr (BinOp (Name ''x'') Mult (Constant (CInt 2)))])
       = (env'(''x'' \<mapsto> VInt 5), Inr (Some (VInt 10)))"
    by (simp add: eval_is_exec eval_value_def op_mul_def)
  from a b c d show ?thesis by blast
qed

theorem sequence_result_witness:
  "exec_body int_host Map.empty None [Assign [Name ''y''] (Constant (CInt 7))]
     = ([''y'' \<mapsto> VInt 7], Inr (Some (VInt 7)))
   \<and> eval int_host Map.empty
       (Inr ([Assign [Name ''y''] (Constant (CInt 7))] @ [Expr (Name ''y'')]))
     = ([''y'' \<mapsto> VInt 7], Inr (Some (VInt 7)))
   \<and> eval int_host Map.empty
       (Inr ([Assign [Name ''y''] (Constant (CInt 7))] @ [Assign [Name ''z''] (Name ''y'')]))
     = ([''y'' \<mapsto> VInt 7, ''z'' \<mapsto> VInt 7], Inr (Some (VInt 7)))"
proof -
  have h: "exec_body int_host Map.empty None [Assign [Name ''y''] (Constant (CInt 7))]
     = ([''y'' \<mapsto> VInt 7], Inr (Some (VInt 7)))"
    by (simp add: eval_value_def)
  show ?thesis
    using h sequence_result [OF h, where e = "Name ''y''" and x = "''z''" and env' = Map.empty]
    by (simp add: eval_value_def)
qed

text \<open>
  C7. A failure is a value returned to the caller and leaves the environment in the
  state the earlier statements produced: when the statements \<open>ss\<close> run without error
  and leave \<open>env1\<close>, and the next statement raises \<open>err\<close> there, the whole call raises
  \<open>err\<close> and the environment is \<open>env1\<close>, with the bindings of \<open>ss\<close> and none from the
  failing statement or from those after it.
\<close>

theorem failure_keeps_prior_assignments:
  assumes "exec_body H env None ss = (env1, Inr lv)"
    and "snd (exec_body H env1 lv [s]) = Inl err"
  shows "eval H env (Inr (ss @ s # rest)) = (env1, Inl err)"
  using assms
  by (simp add: eval_is_exec exec_body_append exec_body_failing_head)

theorem failure_keeps_prior_assignments_witness:
  "exec_body int_host Map.empty None [Assign [Name ''x''] (Constant (CInt 1))]
     = ([''x'' \<mapsto> VInt 1], Inr (Some (VInt 1)))
   \<and> snd (exec_body int_host [''x'' \<mapsto> VInt 1] (Some (VInt 1)) [Assign [Name ''y''] (Name ''zzz'')])
     = Inl (ValueError ''Unknown variable or constant: zzz'')
   \<and> eval int_host Map.empty
       (Inr ([Assign [Name ''x''] (Constant (CInt 1))]
             @ Assign [Name ''y''] (Name ''zzz'') # [Assign [Name ''w''] (Constant (CInt 2))]))
     = ([''x'' \<mapsto> VInt 1], Inl (ValueError ''Unknown variable or constant: zzz''))"
proof -
  have h1: "exec_body int_host Map.empty None [Assign [Name ''x''] (Constant (CInt 1))]
     = ([''x'' \<mapsto> VInt 1], Inr (Some (VInt 1)))"
    by (simp add: eval_value_def)
  have h2: "snd (exec_body int_host [''x'' \<mapsto> VInt 1] (Some (VInt 1)) [Assign [Name ''y''] (Name ''zzz'')])
     = Inl (ValueError ''Unknown variable or constant: zzz'')"
    by (simp add: eval_value_def ALLOWED_CONSTS_def)
  show ?thesis
    using h1 h2 failure_keeps_prior_assignments [OF h1 h2, of "[Assign [Name ''w''] (Constant (CInt 2))]"]
    by simp
qed

text \<open>
  C10. Evaluating expressions never changes the environment, whether the evaluation
  succeeds or raises: a call on one expression, or on any sequence of expression
  statements, returns the environment it was given, and the store of the evaluator
  object is unchanged. Only assignments write: a name whose binding differs after a
  call is the target of an assignment of the program.
\<close>

theorem expr_never_mutates:
  "fst (eval H env (Inr [Expr e])) = env
   \<and> ((\<forall>s \<in> set body. \<exists>e'. s = Expr e') \<longrightarrow> fst (eval H env (Inr body)) = env)
   \<and> (fst (eval H env (Inr body)) x \<noteq> env x \<longrightarrow> (\<exists>e'. Assign [Name x] e' \<in> set body))
   \<and> (vars self < length st \<longrightarrow> fst (SafeEval_eval H st self (Inr [Expr e])) = st)"
proof -
  have a: "fst (eval H env (Inr [Expr e])) = env" for env :: "'a env"
    by (simp add: eval_def)
  have b: "(\<forall>s \<in> set body. \<exists>e'. s = Expr e') \<longrightarrow> fst (eval H env (Inr body)) = env"
    by (simp add: eval_is_exec exec_body_only_exprs)
  have c: "fst (eval H env (Inr body)) x \<noteq> env x \<longrightarrow> (\<exists>e'. Assign [Name x] e' \<in> set body)"
    using exec_body_writes_targets [of H env None body x] by (simp add: eval_is_exec)
  have d: "vars self < length st \<longrightarrow> fst (SafeEval_eval H st self (Inr [Expr e])) = st"
    by (simp add: SafeEval_eval_def a)
  from a b c d show ?thesis by blast
qed

theorem expr_never_mutates_witness:
  "fst (eval int_host [''x'' \<mapsto> VInt 3] (Inr [Expr (Name ''zzz'')])) = [''x'' \<mapsto> VInt 3]
   \<and> fst (eval int_host [''x'' \<mapsto> VInt 3]
            (Inr [Expr (Name ''x''), Expr (BinOp (Name ''x'') Div (Constant (CInt 0)))]))
       = [''x'' \<mapsto> VInt 3]
   \<and> fst (eval int_host [''x'' \<mapsto> VInt 3] (Inr [Assign [Name ''x''] (Constant (CInt 4))])) ''x''
       \<noteq> [''x'' \<mapsto> VInt 3] ''x''
   \<and> (\<exists>e'. Assign [Name ''x''] e' \<in> set [Assign [Name ''x''] (Constant (CInt 4)) :: unit stmt])
   \<and> fst (SafeEval_eval int_host [Map.empty, [''x'' \<mapsto> VInt 3]] \<lparr>vars = 1\<rparr> (Inr [Expr (Name ''zzz'')]))
       = [Map.empty, [''x'' \<mapsto> VInt 3]]"
proof -
  have p1: "\<forall>s \<in> set [Expr (Name ''x''), Expr (BinOp (Name ''x'') Div (Constant (CInt 0)))].
              \<exists>e'. s = (Expr e' :: unit stmt)"
    by simp
  have p2: "fst (eval int_host [''x'' \<mapsto> VInt 3] (Inr [Assign [Name ''x''] (Constant (CInt 4))])) ''x''
       \<noteq> [''x'' \<mapsto> VInt 3] ''x''"
    by (simp add: eval_is_exec eval_value_def)
  have p3: "vars \<lparr>vars = 1\<rparr> < length [Map.empty, [''x'' \<mapsto> VInt (3::int)] :: unit env]"
    by simp
  note t1 = expr_never_mutates [of int_host "[''x'' \<mapsto> VInt 3]" "Name ''zzz''"
      "[Expr (Name ''x''), Expr (BinOp (Name ''x'') Div (Constant (CInt 0)))]" "''x''"
      "\<lparr>vars = 1\<rparr>" "[Map.empty, [''x'' \<mapsto> VInt 3]]"]
  note t2 = expr_never_mutates [of int_host "[''x'' \<mapsto> VInt 3]" "Name ''zzz''"
      "[Assign [Name ''x''] (Constant (CInt 4))]" "''x''"
      "\<lparr>vars = 1\<rparr>" "[Map.empty, [''x'' \<mapsto> VInt 3]]"]
  show ?thesis
    using p1 p2 p3 t1 t2 by blast
qed

text \<open>
  C9, as the code has it. \<open>SafeEval(variables)\<close> copies the caller's dictionary. With
  the caller's empty dictionary at address 0, the evaluator built from it keeps its
  variables at address 1; after \<open>x = 1\<close> the evaluator's dictionary binds \<open>x\<close> to 1
  and the caller's dictionary still has no \<open>x\<close>.
\<close>

theorem caller_mapping_counterexample:
  "SafeEval_run int_host [Map.empty] (Some 0) (Inr [Assign [Name ''x''] (Constant (CInt 1))])
     = ([Map.empty, [''x'' \<mapsto> VInt 1]], \<lparr>vars = 1\<rparr>, Inr (Some (VInt 1)))
   \<and> ([Map.empty, [''x'' \<mapsto> VInt 1 :: unit val]] ! 0) ''x'' = None"
  by (simp add: SafeEval_run_def SafeEval_init_def SafeEval_eval_def eval_is_exec eval_value_def)

text \<open>
  C9, amended. The only effect of an evaluation is on the evaluator's own dictionary,
  the copy made by the constructor: every dictionary that existed before the evaluator
  was built, the caller's included, is unchanged; the evaluator's dictionary and the
  outcome are what \<open>eval\<close> computes from the copy; and after a successful assignment
  \<open>x = e\<close> the evaluator's dictionary binds \<open>x\<close> to the value of \<open>e\<close> while the
  caller's binding of \<open>x\<close> is as before.
\<close>

theorem evaluator_owns_copy:
  assumes "r < length st"
    and "SafeEval_run H st (Some r) parsed = (st2, self, res)"
  shows "(\<forall>a < length st. st2 ! a = st ! a)
   \<and> length st2 = Suc (length st)
   \<and> vars self = length st
   \<and> (st2 ! vars self, res) = eval H (st ! r) parsed
   \<and> (\<forall>x e v. parsed = Inr [Assign [Name x] e] \<and> eval_value H (st ! r) e = Inr v
        \<longrightarrow> (st2 ! vars self) x = Some v \<and> (st2 ! r) x = (st ! r) x)"
proof -
  have st2: "st2 = (st @ [st ! r])[length st := fst (eval H (st ! r) parsed)]"
    and self: "self = \<lparr>vars = length st\<rparr>"
    and res: "res = snd (eval H (st ! r) parsed)"
    using assms(2) by (auto simp: SafeEval_run_def SafeEval_init_def SafeEval_eval_def)
  have a: "\<forall>a < length st. st2 ! a = st ! a"
    by (simp add: st2 nth_append)
  have b: "length st2 = Suc (length st)" "vars self = length st"
    by (simp_all add: st2 self)
  have c: "(st2 ! vars self, res) = eval H (st ! r) parsed"
    by (simp add: st2 self res)
  have d: "(st2 ! vars self) x = Some v \<and> (st2 ! r) x = (st ! r) x"
    if "parsed = Inr [Assign [Name x] e]" "eval_value H (st ! r) e = Inr v" for x e v
  proof -
    have "fst (eval H (st ! r) parsed) = (st ! r)(x \<mapsto> v)"
      using that by (simp add: eval_is_exec)
    then have "(st2 ! vars self) x = Some v"
      using c by (metis fst_conv fun_upd_same)
    moreover have "(st2 ! r) x = (st ! r) x"
      using a assms(1) by simp
    ultimately show ?thesis by simp
  qed
  from a b c d show ?thesis by blast
qed

theorem evaluator_owns_copy_witness:
  "(0::nat) < length [[''a'' \<mapsto> VInt 1 :: unit val]]
   \<and> SafeEval_run int_host [[''a'' \<mapsto> VInt 1]] (Some 0) (Inr [Assign [Name ''x''] (Name ''a'')])
       = ([[''a'' \<mapsto> VInt 1], [''a'' \<mapsto> VInt 1, ''x'' \<mapsto> VInt 1]], \<lparr>vars = 1\<rparr>,
          Inr (Some (VInt 1)))
   \<and> eval_value int_host ([[''a'' \<mapsto> VInt 1]] ! 0) (Name ''a'') = Inr (VInt 1)
   \<and> ([[''a'' \<mapsto> VInt 1], [''a'' \<mapsto> VInt 1, ''x'' \<mapsto> VInt 1 :: unit val]] ! vars \<lparr>vars = 1\<rparr>) ''x''
       = Some (VInt 1)
   \<and> ([[''a'' \<mapsto> VInt 1], [''a'' \<mapsto> VInt 1, ''x'' \<mapsto> VInt 1 :: unit val]] ! 0) ''x''
       = ([[''a'' \<mapsto> VInt 1 :: unit val]] ! 0) ''x''"
proof -
  have h: "(0::nat) < length [[''a'' \<mapsto> VInt 1 :: unit val]]"
    by simp
  have run: "SafeEval_run int_host [[''a'' \<mapsto> VInt 1]] (Some 0) (Inr [Assign [Name ''x''] (Name ''a'')])
       = ([[''a'' \<mapsto> VInt 1], [''a'' \<mapsto> VInt 1, ''x'' \<mapsto> VInt 1]], \<lparr>vars = 1\<rparr>,
          Inr (Some (VInt 1)))"
    by (simp add: SafeEval_run_def SafeEval_init_def SafeEval_eval_def eval_is_exec eval_value_def)
  have v: "eval_value int_host ([[''a'' \<mapsto> VInt 1]] ! 0) (Name ''a'') = Inr (VInt 1)"
    by (simp add: eval_value_def)
  from evaluator_owns_copy [OF h run] v
  have "([[''a'' \<mapsto> VInt 1], [''a'' \<mapsto> VInt 1, ''x'' \<mapsto> VInt 1 :: unit val]] ! vars \<lparr>vars = 1\<rparr>) ''x''
       = Some (VInt 1)
     \<and> ([[''a'' \<mapsto> VInt 1], [''a'' \<mapsto> VInt 1, ''x'' \<mapsto> VInt 1 :: unit val]] ! 0) ''x''
       = ([[''a'' \<mapsto> VInt 1 :: unit val]] ! 0) ''x''"
    by blast
  with h run v show ?thesis
    by blast
qed

subsection \<open>Operators\<close>

text \<open>
  C2. A \<open>BinOp\<close> node whose operands evaluate to \<open>a\<close> and \<open>b\<close> returns what the native
  operator returns on \<open>a\<close> and \<open>b\<close>, for each of \<open>+\<close>, \<open>-\<close>, \<open>*\<close>, \<open>/\<close>, \<open>//\<close>,
  \<open>%\<close> and \<open>**\<close>. On integers (booleans included) the results are the integer sum,
  difference, product, floor quotient, remainder with the sign of the divisor, and
  power with a non-negative exponent; the quotient of \<open>/\<close> is a float and is the
  host's. When \<open>b\<close> is a zero of type int, bool or float and \<open>a\<close> is a real number,
  \<open>/\<close>, \<open>//\<close> and \<open>%\<close> raise an \<open>ArithmeticError\<close>: \<open>ZeroDivisionError\<close>, except that
  an integer too large for a float over a float zero raises \<open>OverflowError\<close>.
\<close>

theorem binop_native:
  assumes "eval_value H env l = Inr a" and "eval_value H env r = Inr b"
  shows "eval_value H env (BinOp l Add r) = op_add H a b
   \<and> eval_value H env (BinOp l Sub r) = op_sub H a b
   \<and> eval_value H env (BinOp l Mult r) = op_mul H a b
   \<and> eval_value H env (BinOp l Div r) = op_truediv H a b
   \<and> eval_value H env (BinOp l FloorDiv r) = op_floordiv H a b
   \<and> eval_value H env (BinOp l Mod r) = op_mod H a b
   \<and> eval_value H env (BinOp l Pow r) = op_pow H a b
   \<and> (\<forall>m n. as_int a = Some m \<and> as_int b = Some n \<longrightarrow>
         op_add H a b = Inr (VInt (m + n))
       \<and> op_sub H a b = Inr (VInt (m - n))
       \<and> op_mul H a b = Inr (VInt (m * n))
       \<and> (n \<noteq> 0 \<longrightarrow> op_truediv H a b = h_binop H Div a b
                    \<and> op_floordiv H a b = Inr (VInt (m div n))
                    \<and> op_mod H a b = Inr (VInt (m mod n)))
       \<and> (0 \<le> n \<longrightarrow> op_pow H a b = Inr (VInt (m ^ nat n))))
   \<and> (real_number a \<and> real_number b \<and> is_zero H b \<longrightarrow>
         eval_value H env (BinOp l Div r) = Inl (zero_division_error H a b)
       \<and> eval_value H env (BinOp l FloorDiv r) = Inl (zero_division_error H a b)
       \<and> eval_value H env (BinOp l Mod r) = Inl (zero_division_error H a b)
       \<and> is_ArithmeticError (zero_division_error H a b)
       \<and> (zero_division_error H a b = ZeroDivisionError
            \<or> zero_division_error H a b = OverflowError
              \<and> (\<exists>n z. a = VInt n \<and> b = VFloat z \<and> h_int_overflows H n)))"
proof -
  have disp: "eval_value H env (BinOp l oper r) =
      (case BIN_OPS H oper of
         Some f \<Rightarrow> f a b
       | None \<Rightarrow> Inl (ValueError (''Operator not allowed: '' @ operator_name oper)))" for oper
    using assms by (simp add: eval_value_BinOp)
  have ints: "op_add H a b = Inr (VInt (m + n))
       \<and> op_sub H a b = Inr (VInt (m - n))
       \<and> op_mul H a b = Inr (VInt (m * n))
       \<and> (n \<noteq> 0 \<longrightarrow> op_truediv H a b = h_binop H Div a b
                    \<and> op_floordiv H a b = Inr (VInt (m div n))
                    \<and> op_mod H a b = Inr (VInt (m mod n)))
       \<and> (0 \<le> n \<longrightarrow> op_pow H a b = Inr (VInt (m ^ nat n)))"
    if "as_int a = Some m" "as_int b = Some n" for m n
    using that
    by (simp add: op_add_def op_sub_def op_mul_def op_truediv_def op_floordiv_def op_mod_def
        op_pow_def as_int_is_zero)
  have zero: "eval_value H env (BinOp l Div r) = Inl (zero_division_error H a b)
       \<and> eval_value H env (BinOp l FloorDiv r) = Inl (zero_division_error H a b)
       \<and> eval_value H env (BinOp l Mod r) = Inl (zero_division_error H a b)"
    if "real_number a \<and> real_number b \<and> is_zero H b"
    using that by (simp add: disp op_truediv_def op_floordiv_def op_mod_def)
  have kind: "is_ArithmeticError (zero_division_error H a b)
       \<and> (zero_division_error H a b = ZeroDivisionError
            \<or> zero_division_error H a b = OverflowError
              \<and> (\<exists>n z. a = VInt n \<and> b = VFloat z \<and> h_int_overflows H n))"
    by (rule zero_division_error_kind)
  show ?thesis
    using ints zero kind by (simp add: disp)
qed

theorem binop_native_witness:
  "eval_value int_host Map.empty (Constant (CInt (-7))) = Inr (VInt (-7))
   \<and> eval_value int_host Map.empty (Constant (CInt 2)) = Inr (VInt 2)
   \<and> eval_value int_host Map.empty (BinOp (Constant (CInt (-7))) Add (Constant (CInt 2))) = Inr (VInt (-5))
   \<and> eval_value int_host Map.empty (BinOp (Constant (CInt (-7))) Sub (Constant (CInt 2))) = Inr (VInt (-9))
   \<and> eval_value int_host Map.empty (BinOp (Constant (CInt (-7))) Mult (Constant (CInt 2))) = Inr (VInt (-14))
   \<and> eval_value int_host Map.empty (BinOp (Constant (CInt (-7))) FloorDiv (Constant (CInt 2))) = Inr (VInt (-4))
   \<and> eval_value int_host Map.empty (BinOp (Constant (CInt (-7))) Mod (Constant (CInt 2))) = Inr (VInt 1)
   \<and> eval_value int_host Map.empty (BinOp (Constant (CInt (-7))) Pow (Constant (CInt 2))) = Inr (VInt 49)
   \<and> eval_value int_host Map.empty (Constant (CBool False)) = Inr (VBool False)
   \<and> real_number (VInt (-7) :: unit val) \<and> real_number (VBool False :: unit val)
   \<and> is_zero int_host (VBool False)
   \<and> eval_value int_host Map.empty (BinOp (Constant (CInt (-7))) Div (Constant (CBool False))) = Inl ZeroDivisionError
   \<and> eval_value int_host Map.empty (BinOp (Constant (CInt (-7))) FloorDiv (Constant (CBool False))) = Inl ZeroDivisionError
   \<and> eval_value int_host Map.empty (BinOp (Constant (CInt (-7))) Mod (Constant (CBool False))) = Inl ZeroDivisionError
   \<and> eval_value int_host Map.empty (Constant (CInt (2 ^ 1024))) = Inr (VInt (2 ^ 1024))
   \<and> eval_value int_host Map.empty (Constant (CFloat ())) = Inr (VFloat ())
   \<and> real_number (VInt (2 ^ 1024) :: unit val) \<and> real_number (VFloat ())
   \<and> is_zero int_host (VFloat ())
   \<and> eval_value int_host Map.empty (BinOp (Constant (CInt (2 ^ 1024))) Div (Constant (CFloat ()))) = Inl OverflowError
   \<and> is_ArithmeticError OverflowError"
proof -
  have a: "eval_value int_host Map.empty (Constant (CInt (-7))) = Inr (VInt (-7))"
    by (simp add: eval_value_def)
  have b: "eval_value int_host Map.empty (Constant (CInt 2)) = Inr (VInt 2)"
    by (simp add: eval_value_def)
  have z: "eval_value int_host Map.empty (Constant (CBool False)) = Inr (VBool False)"
    by (simp add: eval_value_def)
  have big: "eval_value int_host Map.empty (Constant (CInt (2 ^ 1024))) = Inr (VInt (2 ^ 1024))"
    by (simp add: eval_value_def)
  have fz: "eval_value int_host Map.empty (Constant (CFloat ())) = Inr (VFloat ())"
    by (simp add: eval_value_def)
  have ia: "as_int (VInt (-7) :: unit val) = Some (-7)" and ib: "as_int (VInt 2 :: unit val) = Some 2"
    by simp_all
  have pw: "(-7 :: int) ^ nat 2 = 49"
    by (simp add: eval_nat_numeral)
  have dv: "(-7 :: int) div 2 = -4" "(-7 :: int) mod 2 = 1"
    by simp_all
  note t1 = binop_native [OF a b]
  note t2 = binop_native [OF a z]
  note t3 = binop_native [OF big fz]
  from t1 ia ib pw dv
  have p1: "eval_value int_host Map.empty (BinOp (Constant (CInt (-7))) Add (Constant (CInt 2))) = Inr (VInt (-5))
   \<and> eval_value int_host Map.empty (BinOp (Constant (CInt (-7))) Sub (Constant (CInt 2))) = Inr (VInt (-9))
   \<and> eval_value int_host Map.empty (BinOp (Constant (CInt (-7))) Mult (Constant (CInt 2))) = Inr (VInt (-14))
   \<and> eval_value int_host Map.empty (BinOp (Constant (CInt (-7))) FloorDiv (Constant (CInt 2))) = Inr (VInt (-4))
   \<and> eval_value int_host Map.empty (BinOp (Constant (CInt (-7))) Mod (Constant (CInt 2))) = Inr (VInt 1)
   \<and> eval_value int_host Map.empty (BinOp (Constant (CInt (-7))) Pow (Constant (CInt 2))) = Inr (VInt 49)"
    by simp
  have rn: "real_number (VInt (-7) :: unit val) \<and> real_number (VBool False :: unit val)
      \<and> is_zero int_host (VBool False)"
    by simp
  have rb: "real_number (VInt (2 ^ 1024) :: unit val) \<and> real_number (VFloat ())
      \<and> is_zero int_host (VFloat ())"
    by simp
  have e2: "zero_division_error int_host (VInt (-7)) (VBool False) = ZeroDivisionError"
    by simp
  have e3: "zero_division_error int_host (VInt (2 ^ 1024)) (VFloat ()) = OverflowError"
    by simp
  note z2 = mp [OF t2 [THEN conjunct2, THEN conjunct2, THEN conjunct2, THEN conjunct2,
        THEN conjunct2, THEN conjunct2, THEN conjunct2, THEN conjunct2] rn]
  note z3 = mp [OF t3 [THEN conjunct2, THEN conjunct2, THEN conjunct2, THEN conjunct2,
        THEN conjunct2, THEN conjunct2, THEN conjunct2, THEN conjunct2] rb]
  have p2: "eval_value int_host Map.empty (BinOp (Constant (CInt (-7))) Div (Constant (CBool False))) = Inl ZeroDivisionError
   \<and> eval_value int_host Map.empty (BinOp (Constant (CInt (-7))) FloorDiv (Constant (CBool False))) = Inl ZeroDivisionError
   \<and> eval_value int_host Map.empty (BinOp (Constant (CInt (-7))) Mod (Constant (CBool False))) = Inl ZeroDivisionError"
    using z2 unfolding e2 by (elim conjE) (intro conjI; assumption)
  have p3: "eval_value int_host Map.empty (BinOp (Constant (CInt (2 ^ 1024))) Div (Constant (CFloat ()))) = Inl OverflowError
   \<and> is_ArithmeticError OverflowError"
    using z3 unfolding e3 by (elim conjE) (intro conjI; assumption)
  from a b z p1 p2 rn big fz rb p3 show ?thesis
    by (elim conjE) (intro conjI; assumption)
qed

subsection \<open>Calls\<close>

text \<open>
  C1, as the code has it. The arguments of an allowed call are evaluated before its
  keyword arguments are looked at, so the whitelisted functions called inside the
  arguments are invoked before the keyword failure: \<open>max(abs(1), key=0)\<close> invokes
  \<open>abs\<close> on 1 and then fails with "Keyword arguments are not allowed.". And when an
  argument raises, the failure is that argument's: \<open>max(zzz, key=0)\<close> fails with the
  unknown name, not with the keyword error.
\<close>

theorem nested_call_counterexample:
  "eval_expr int_host Map.empty
     (Call (Name ''max'') [Call (Name ''abs'') [Constant (CInt 1)] []]
        [(Some ''key'', Constant (CInt 0))]) =
     ([Enter (Call (Name ''max'') [Call (Name ''abs'') [Constant (CInt 1)] []]
        [(Some ''key'', Constant (CInt 0))]),
       Enter (Call (Name ''abs'') [Constant (CInt 1)] []),
       Enter (Constant (CInt 1)),
       Invoke ''abs'' [VInt 1]],
      Inl (ValueError ''Keyword arguments are not allowed.''))
   \<and> eval_expr int_host Map.empty
     (Call (Name ''max'') [Name ''zzz''] [(Some ''key'', Constant (CInt 0))]) =
     ([Enter (Call (Name ''max'') [Name ''zzz''] [(Some ''key'', Constant (CInt 0))]),
       Enter (Name ''zzz'')],
      Inl (ValueError ''Unknown variable or constant: zzz''))"
  by (simp add: ALLOWED_FUNCS_def allowed_func_names_def ALLOWED_CONSTS_def)

text \<open>
  C1, amended. A call whose callee is not a bare name fails with "Only direct function
  calls are allowed.", and a call of a name outside the whitelist fails with "Function
  not allowed:" followed by the name; in both cases nothing but the \<open>Call\<close> node is
  entered: no argument is evaluated and no function is invoked. For a whitelisted name
  the arguments are evaluated from left to right, each once, up to the first that
  raises, and the log of the call is the log of its arguments, with the invocations
  made inside them. With keyword arguments the call then fails, with the error of the
  argument that raised or else with "Keyword arguments are not allowed.", and the
  named function itself is not invoked; without them it is invoked once, after the
  arguments, on their values.
\<close>

theorem call_whitelist:
  "set allowed_func_names =
     {''abs'', ''round'', ''sqrt'', ''sin'', ''cos'', ''tan'',
      ''log'', ''log10'', ''exp'', ''pow'', ''max'', ''min''}
   \<and> ((\<forall>name. func \<noteq> Name name) \<longrightarrow>
        eval_expr H env (Call func args kws) =
          ([Enter (Call func args kws)],
           Inl (ValueError ''Only direct function calls are allowed.'')))
   \<and> (name \<notin> set allowed_func_names \<longrightarrow>
        eval_expr H env (Call (Name name) args kws) =
          ([Enter (Call (Name name) args kws)],
           Inl (ValueError (''Function not allowed: '' @ name))))
   \<and> (name \<in> set allowed_func_names \<and> kws \<noteq> [] \<longrightarrow>
        eval_expr H env (Call (Name name) args kws) =
          (Enter (Call (Name name) args kws) # fst (eval_list H env args),
           case snd (eval_list H env args) of
             Inl e \<Rightarrow> Inl e
           | Inr vs \<Rightarrow> Inl (ValueError ''Keyword arguments are not allowed.'')))
   \<and> (name \<in> set allowed_func_names \<longrightarrow>
        eval_expr H env (Call (Name name) args []) =
          (case snd (eval_list H env args) of
             Inl e \<Rightarrow> (Enter (Call (Name name) args []) # fst (eval_list H env args), Inl e)
           | Inr vs \<Rightarrow>
               (Enter (Call (Name name) args []) # fst (eval_list H env args) @ [Invoke name vs],
                h_call H name vs)))
   \<and> ((\<forall>i < length args. eval_value H env (args ! i) = Inr (v i)) \<longrightarrow>
        eval_list H env args =
          (concat (map (\<lambda>a. fst (eval_expr H env a)) args), Inr (map v [0 ..< length args])))
   \<and> (k < length args \<and> (\<forall>i < k. eval_value H env (args ! i) = Inr (v i))
        \<and> eval_value H env (args ! k) = Inl e \<longrightarrow>
        eval_list H env args =
          (concat (map (\<lambda>a. fst (eval_expr H env a)) (take (Suc k) args)), Inl e))"
proof -
  have names: "set allowed_func_names =
     {''abs'', ''round'', ''sqrt'', ''sin'', ''cos'', ''tan'',
      ''log'', ''log10'', ''exp'', ''pow'', ''max'', ''min''}"
    by (simp add: allowed_func_names_def)
  have indirect: "eval_expr H env (Call func args kws) =
          ([Enter (Call func args kws)],
           Inl (ValueError ''Only direct function calls are allowed.''))"
    if "\<forall>name. func \<noteq> Name name"
    using that by (cases func) simp_all
  have refused: "eval_expr H env (Call (Name name) args kws) =
          ([Enter (Call (Name name) args kws)],
           Inl (ValueError (''Function not allowed: '' @ name)))"
    if "name \<notin> set allowed_func_names"
    using that by (simp add: ALLOWED_FUNCS_def)
  have kwargs: "eval_expr H env (Call (Name name) args kws) =
          (Enter (Call (Name name) args kws) # fst (eval_list H env args),
           case snd (eval_list H env args) of
             Inl e \<Rightarrow> Inl e
           | Inr vs \<Rightarrow> Inl (ValueError ''Keyword arguments are not allowed.''))"
    if "name \<in> set allowed_func_names \<and> kws \<noteq> []"
    using that by (simp add: ALLOWED_FUNCS_def and_then_def enter_def split: sum.splits)
  have invoked: "eval_expr H env (Call (Name name) args []) =
          (case snd (eval_list H env args) of
             Inl e \<Rightarrow> (Enter (Call (Name name) args []) # fst (eval_list H env args), Inl e)
           | Inr vs \<Rightarrow>
               (Enter (Call (Name name) args []) # fst (eval_list H env args) @ [Invoke name vs],
                h_call H name vs))"
    if "name \<in> set allowed_func_names"
    using that by (simp add: ALLOWED_FUNCS_def and_then_def enter_def split: sum.splits)
  show ?thesis
    using names indirect refused kwargs invoked
      eval_list_ok [of args H env v] eval_list_first_error [of k args H env v e]
    by (intro conjI impI) (assumption | blast)+
qed

theorem call_whitelist_witness:
  "(\<forall>name. (Unsupported ''Attribute'' :: unit expr) \<noteq> Name name)
   \<and> eval_expr int_host Map.empty (Call (Unsupported ''Attribute'') [Constant (CInt 1)] []) =
       ([Enter (Call (Unsupported ''Attribute'') [Constant (CInt 1)] [])],
        Inl (ValueError ''Only direct function calls are allowed.''))
   \<and> ''open'' \<notin> set allowed_func_names
   \<and> eval_expr int_host Map.empty (Call (Name ''open'') [Constant (CStr ''x'')] []) =
       ([Enter (Call (Name ''open'') [Constant (CStr ''x'')] [])],
        Inl (ValueError ''Function not allowed: open''))
   \<and> ''max'' \<in> set allowed_func_names
   \<and> eval_expr int_host Map.empty
         (Call (Name ''max'') [Constant (CInt 1), Constant (CInt 5)]
            [(Some ''key'', Constant (CInt 0))]) =
       ([Enter (Call (Name ''max'') [Constant (CInt 1), Constant (CInt 5)]
            [(Some ''key'', Constant (CInt 0))]),
         Enter (Constant (CInt 1)), Enter (Constant (CInt 5))],
        Inl (ValueError ''Keyword arguments are not allowed.''))
   \<and> eval_expr int_host Map.empty
         (Call (Name ''max'') [Constant (CInt 1), Constant (CInt 5)] []) =
       ([Enter (Call (Name ''max'') [Constant (CInt 1), Constant (CInt 5)] []),
         Enter (Constant (CInt 1)), Enter (Constant (CInt 5)),
         Invoke ''max'' [VInt 1, VInt 5]],
        Inr (VInt 5))
   \<and> eval_list int_host Map.empty [Constant (CInt 1), Name ''zzz'', Constant (CInt 5)] =
       ([Enter (Constant (CInt 1)), Enter (Name ''zzz'')],
        Inl (ValueError ''Unknown variable or constant: zzz''))"
proof -
  let ?args = "[Constant (CInt 1), Constant (CInt 5)] :: unit expr list"
  let ?bad = "[Constant (CInt 1), Name ''zzz'', Constant (CInt 5)] :: unit expr list"
  let ?kws = "[(Some ''key'', Constant (CInt 0))] :: (string option \<times> unit expr) list"
  let ?v = "\<lambda>i. VInt ([1, 5] ! i) :: unit val"
  have h1: "\<forall>name. (Unsupported ''Attribute'' :: unit expr) \<noteq> Name name"
    by simp
  have h2: "''open'' \<notin> set allowed_func_names"
    by (simp add: allowed_func_names_def)
  have h3: "''max'' \<in> set allowed_func_names"
    by (simp add: allowed_func_names_def)
  have h4: "?kws \<noteq> []"
    by simp
  have h5: "\<forall>i < length ?args. eval_value int_host Map.empty (?args ! i) = Inr (?v i)"
    by (simp add: eval_value_def less_Suc_eq)
  have h6: "Suc 0 < length ?bad \<and> (\<forall>i < Suc 0. eval_value int_host Map.empty (?bad ! i) = Inr (?v i))
      \<and> eval_value int_host Map.empty (?bad ! Suc 0) = Inl (ValueError ''Unknown variable or constant: zzz'')"
    by (simp add: eval_value_def ALLOWED_CONSTS_def)
  note a = call_whitelist [where func = "Unsupported ''Attribute''" and H = int_host
      and env = Map.empty and args = "[Constant (CInt 1)]" and kws = "[]"]
  note b = call_whitelist [where name = "''open''" and H = int_host
      and env = Map.empty and args = "[Constant (CStr ''x'')]" and kws = "[]"]
  note c = call_whitelist [where name = "''max''" and H = int_host
      and env = Map.empty and args = ?args and kws = ?kws and v = ?v]
  note d = call_whitelist [where H = int_host and env = Map.empty and args = ?bad and v = ?v
      and k = "Suc 0" and e = "ValueError ''Unknown variable or constant: zzz''"]
  have r1: "eval_expr int_host Map.empty (Call (Unsupported ''Attribute'') [Constant (CInt 1)] []) =
       ([Enter (Call (Unsupported ''Attribute'') [Constant (CInt 1)] [])],
        Inl (ValueError ''Only direct function calls are allowed.''))"
    using a [THEN conjunct2, THEN conjunct1] h1 by (rule mp)
  have r2: "eval_expr int_host Map.empty (Call (Name ''open'') [Constant (CStr ''x'')] []) =
       ([Enter (Call (Name ''open'') [Constant (CStr ''x'')] [])],
        Inl (ValueError (''Function not allowed: '' @ ''open'')))"
    using b [THEN conjunct2, THEN conjunct2, THEN conjunct1] h2 by (rule mp)
  have args_ok: "eval_list int_host Map.empty ?args =
      (concat (map (\<lambda>a. fst (eval_expr int_host Map.empty a)) ?args),
       Inr (map ?v [0 ..< length ?args]))"
    using c [THEN conjunct2, THEN conjunct2, THEN conjunct2, THEN conjunct2, THEN conjunct2,
        THEN conjunct1] h5
    by (rule mp)
  then have args_val: "eval_list int_host Map.empty ?args =
      ([Enter (Constant (CInt 1)), Enter (Constant (CInt 5))], Inr [VInt 1, VInt 5])"
    by (simp add: upt_rec)
  have r3: "eval_expr int_host Map.empty (Call (Name ''max'') ?args ?kws) =
          (Enter (Call (Name ''max'') ?args ?kws) # fst (eval_list int_host Map.empty ?args),
           case snd (eval_list int_host Map.empty ?args) of
             Inl e \<Rightarrow> Inl e
           | Inr vs \<Rightarrow> Inl (ValueError ''Keyword arguments are not allowed.''))"
    using c [THEN conjunct2, THEN conjunct2, THEN conjunct2, THEN conjunct1] conjI [OF h3 h4]
    by (rule mp)
  have r4: "eval_expr int_host Map.empty (Call (Name ''max'') ?args []) =
          (case snd (eval_list int_host Map.empty ?args) of
             Inl e \<Rightarrow> (Enter (Call (Name ''max'') ?args []) # fst (eval_list int_host Map.empty ?args), Inl e)
           | Inr vs \<Rightarrow>
               (Enter (Call (Name ''max'') ?args []) # fst (eval_list int_host Map.empty ?args)
                  @ [Invoke ''max'' vs],
                h_call int_host ''max'' vs))"
    using c [THEN conjunct2, THEN conjunct2, THEN conjunct2, THEN conjunct2, THEN conjunct1] h3
    by (rule mp)
  have r5: "eval_list int_host Map.empty ?bad =
          (concat (map (\<lambda>a. fst (eval_expr int_host Map.empty a)) (take (Suc (Suc 0)) ?bad)),
           Inl (ValueError ''Unknown variable or constant: zzz''))"
    using d [THEN conjunct2, THEN conjunct2, THEN conjunct2, THEN conjunct2, THEN conjunct2,
        THEN conjunct2] h6
    by (rule mp)
  show ?thesis
    apply (intro conjI)
           apply (rule h1)
          apply (rule r1)
         apply (rule h2)
        apply (simp only: r2 append.simps)
       apply (rule h3)
      apply (subst r3, subst args_val, subst args_val, simp)
     apply (subst r4, subst args_val, subst args_val, simp)
    apply (subst r5, simp add: ALLOWED_CONSTS_def)
    done
qed

subsection \<open>Boolean operators and comparisons\<close>

text \<open>
  C4. \<open>and\<close> evaluates its operands from left to right, each once; at the first falsy
  operand it returns the boolean \<open>False\<close> and the operands after it are not evaluated;
  when every operand is truthy it returns the boolean \<open>True\<close>. \<open>or\<close> is symmetric:
  \<open>True\<close> at the first truthy operand, \<open>False\<close> when none is truthy. The value of a
  \<open>BoolOp\<close> node is always one of the two booleans, never an operand's own value.
\<close>

theorem boolop_short_circuit:
  "(k < length es \<and> (\<forall>i \<le> k. eval_value H env (es ! i) = Inr (v i))
      \<and> (\<forall>i < k. truthy H (v i)) \<and> \<not> truthy H (v k) \<longrightarrow>
      eval_expr H env (BoolOp And es) =
        (Enter (BoolOp And es) # concat (map (\<lambda>a. fst (eval_expr H env a)) (take (Suc k) es)),
         Inr (VBool False)))
   \<and> ((\<forall>i < length es. eval_value H env (es ! i) = Inr (v i) \<and> truthy H (v i)) \<longrightarrow>
      eval_expr H env (BoolOp And es) =
        (Enter (BoolOp And es) # concat (map (\<lambda>a. fst (eval_expr H env a)) es),
         Inr (VBool True)))
   \<and> (k < length es \<and> (\<forall>i \<le> k. eval_value H env (es ! i) = Inr (v i))
      \<and> (\<forall>i < k. \<not> truthy H (v i)) \<and> truthy H (v k) \<longrightarrow>
      eval_expr H env (BoolOp Or es) =
        (Enter (BoolOp Or es) # concat (map (\<lambda>a. fst (eval_expr H env a)) (take (Suc k) es)),
         Inr (VBool True)))
   \<and> ((\<forall>i < length es. eval_value H env (es ! i) = Inr (v i) \<and> \<not> truthy H (v i)) \<longrightarrow>
      eval_expr H env (BoolOp Or es) =
        (Enter (BoolOp Or es) # concat (map (\<lambda>a. fst (eval_expr H env a)) es),
         Inr (VBool False)))
   \<and> (eval_value H env (BoolOp bop es) = Inr r \<longrightarrow> r = VBool True \<or> r = VBool False)"
proof -
  have a: "eval_expr H env (BoolOp And es) =
        (Enter (BoolOp And es) # concat (map (\<lambda>a. fst (eval_expr H env a)) (take (Suc k) es)),
         Inr (VBool False))"
    if "k < length es \<and> (\<forall>i \<le> k. eval_value H env (es ! i) = Inr (v i))
      \<and> (\<forall>i < k. truthy H (v i)) \<and> \<not> truthy H (v k)"
    using that eval_and_stop [of k es H env v] by simp
  have b: "eval_expr H env (BoolOp And es) =
        (Enter (BoolOp And es) # concat (map (\<lambda>a. fst (eval_expr H env a)) es),
         Inr (VBool True))"
    if "\<forall>i < length es. eval_value H env (es ! i) = Inr (v i) \<and> truthy H (v i)"
    using eval_and_all [OF that] by simp
  have c: "eval_expr H env (BoolOp Or es) =
        (Enter (BoolOp Or es) # concat (map (\<lambda>a. fst (eval_expr H env a)) (take (Suc k) es)),
         Inr (VBool True))"
    if "k < length es \<and> (\<forall>i \<le> k. eval_value H env (es ! i) = Inr (v i))
      \<and> (\<forall>i < k. \<not> truthy H (v i)) \<and> truthy H (v k)"
    using that eval_or_stop [of k es H env v] by simp
  have d: "eval_expr H env (BoolOp Or es) =
        (Enter (BoolOp Or es) # concat (map (\<lambda>a. fst (eval_expr H env a)) es),
         Inr (VBool False))"
    if "\<forall>i < length es. eval_value H env (es ! i) = Inr (v i) \<and> \<not> truthy H (v i)"
    using eval_or_none [OF that] by simp
  have e: "r = VBool True \<or> r = VBool False" if "eval_value H env (BoolOp bop es) = Inr r"
    using that eval_and_bool [of H env es r] eval_or_bool [of H env es r]
    by (cases bop) (simp_all add: eval_value_def)
  show ?thesis
    using a b c d e by (intro conjI impI) (assumption | blast)+
qed

theorem boolop_short_circuit_witness:
  "eval_expr int_host Map.empty (BoolOp And [Constant (CInt 1), Constant (CInt 0), Name ''zzz'']) =
     ([Enter (BoolOp And [Constant (CInt 1), Constant (CInt 0), Name ''zzz'']),
       Enter (Constant (CInt 1)), Enter (Constant (CInt 0))],
      Inr (VBool False))
   \<and> eval_expr int_host Map.empty (BoolOp And [Constant (CInt 1), Constant (CInt 2)]) =
     ([Enter (BoolOp And [Constant (CInt 1), Constant (CInt 2)]),
       Enter (Constant (CInt 1)), Enter (Constant (CInt 2))],
      Inr (VBool True))
   \<and> eval_expr int_host Map.empty (BoolOp Or [Constant (CInt 0), Constant (CInt 5), Name ''zzz'']) =
     ([Enter (BoolOp Or [Constant (CInt 0), Constant (CInt 5), Name ''zzz'']),
       Enter (Constant (CInt 0)), Enter (Constant (CInt 5))],
      Inr (VBool True))
   \<and> eval_expr int_host Map.empty (BoolOp Or [Constant (CInt 0), Constant (CBool False)]) =
     ([Enter (BoolOp Or [Constant (CInt 0), Constant (CBool False)]),
       Enter (Constant (CInt 0)), Enter (Constant (CBool False))],
      Inr (VBool False))
   \<and> eval_value int_host Map.empty (BoolOp Or [Constant (CInt 0), Constant (CInt 5), Name ''zzz''])
       = Inr (VBool True)
   \<and> (VBool True = (VBool True :: unit val) \<or> VBool True = (VBool False :: unit val))"
proof -
  let ?and_stop = "[Constant (CInt 1), Constant (CInt 0), Name ''zzz''] :: unit expr list"
  let ?and_all = "[Constant (CInt 1), Constant (CInt 2)] :: unit expr list"
  let ?or_stop = "[Constant (CInt 0), Constant (CInt 5), Name ''zzz''] :: unit expr list"
  let ?or_none = "[Constant (CInt 0), Constant (CBool False)] :: unit expr list"
  let ?v1 = "\<lambda>i. VInt ([1, 0] ! i) :: unit val"
  let ?v2 = "\<lambda>i. VInt ([1, 2] ! i) :: unit val"
  let ?v3 = "\<lambda>i. VInt ([0, 5] ! i) :: unit val"
  let ?v4 = "\<lambda>i. [VInt 0, VBool False] ! i :: unit val"
  have h1: "Suc 0 < length ?and_stop
      \<and> (\<forall>i \<le> Suc 0. eval_value int_host Map.empty (?and_stop ! i) = Inr (?v1 i))
      \<and> (\<forall>i < Suc 0. truthy int_host (?v1 i)) \<and> \<not> truthy int_host (?v1 (Suc 0))"
    by (simp add: eval_value_def le_Suc_eq)
  have h2: "\<forall>i < length ?and_all.
      eval_value int_host Map.empty (?and_all ! i) = Inr (?v2 i) \<and> truthy int_host (?v2 i)"
    by (simp add: eval_value_def less_Suc_eq)
  have h3: "Suc 0 < length ?or_stop
      \<and> (\<forall>i \<le> Suc 0. eval_value int_host Map.empty (?or_stop ! i) = Inr (?v3 i))
      \<and> (\<forall>i < Suc 0. \<not> truthy int_host (?v3 i)) \<and> truthy int_host (?v3 (Suc 0))"
    by (simp add: eval_value_def le_Suc_eq)
  have h4: "\<forall>i < length ?or_none.
      eval_value int_host Map.empty (?or_none ! i) = Inr (?v4 i) \<and> \<not> truthy int_host (?v4 i)"
    by (simp add: eval_value_def less_Suc_eq)
  note a = boolop_short_circuit [where H = int_host and env = Map.empty and es = ?and_stop
      and v = ?v1 and k = "Suc 0"]
  note b = boolop_short_circuit [where H = int_host and env = Map.empty and es = ?and_all
      and v = ?v2]
  note c = boolop_short_circuit [where H = int_host and env = Map.empty and es = ?or_stop
      and v = ?v3 and k = "Suc 0" and bop = Or and r = "VBool True"]
  note d = boolop_short_circuit [where H = int_host and env = Map.empty and es = ?or_none
      and v = ?v4]
  have r1: "eval_expr int_host Map.empty (BoolOp And ?and_stop) =
      (Enter (BoolOp And ?and_stop)
         # concat (map (\<lambda>a. fst (eval_expr int_host Map.empty a)) (take (Suc (Suc 0)) ?and_stop)),
       Inr (VBool False))"
    using a [THEN conjunct1] h1 by (rule mp)
  have r2: "eval_expr int_host Map.empty (BoolOp And ?and_all) =
      (Enter (BoolOp And ?and_all)
         # concat (map (\<lambda>a. fst (eval_expr int_host Map.empty a)) ?and_all),
       Inr (VBool True))"
    using b [THEN conjunct2, THEN conjunct1] h2 by (rule mp)
  have r3: "eval_expr int_host Map.empty (BoolOp Or ?or_stop) =
      (Enter (BoolOp Or ?or_stop)
         # concat (map (\<lambda>a. fst (eval_expr int_host Map.empty a)) (take (Suc (Suc 0)) ?or_stop)),
       Inr (VBool True))"
    using c [THEN conjunct2, THEN conjunct2, THEN conjunct1] h3 by (rule mp)
  have r4: "eval_expr int_host Map.empty (BoolOp Or ?or_none) =
      (Enter (BoolOp Or ?or_none)
         # concat (map (\<lambda>a. fst (eval_expr int_host Map.empty a)) ?or_none),
       Inr (VBool False))"
    using d [THEN conjunct2, THEN conjunct2, THEN conjunct2, THEN conjunct1] h4 by (rule mp)
  have r5: "eval_value int_host Map.empty (BoolOp Or ?or_stop) = Inr (VBool True)"
    by (simp add: eval_value_def r3)
  have r6: "VBool True = (VBool True :: unit val) \<or> VBool True = (VBool False :: unit val)"
    using c [THEN conjunct2, THEN conjunct2, THEN conjunct2, THEN conjunct2] r5 by (rule mp)
  show ?thesis
    apply (intro conjI)
         apply (subst r1, simp)
        apply (subst r2, simp)
       apply (subst r3, simp)
      apply (subst r4, simp)
     apply (rule r5)
    apply (rule r6)
    done
qed

text \<open>
  C3. In a comparison \<open>a0 op1 a1 ... opn an\<close> the operands are evaluated from left to
  right, each at most once. Let the operands up to \<open>a(k+1)\<close> evaluate without error and
  the links before link \<open>k\<close> hold. If link \<open>k\<close> fails, the result is \<open>False\<close> and the
  operands after \<open>a(k+1)\<close> are not entered, whatever they are; if it holds and is the
  last one, the result is \<open>True\<close>. The log is the left operand's followed by those of
  the comparators up to \<open>a(k+1)\<close>, in order, each once. So \<open>1 < 2 < 3\<close> is true,
  \<open>1 < 2 < 1\<close> is false, and \<open>2 < 1 < zzz\<close> is false although \<open>zzz\<close> alone raises.
\<close>

theorem compare_chain:
  assumes "length ops = length cs" and "k < length cs"
    and "eval_value H env l = Inr (v 0)"
    and "\<forall>i \<le> k. eval_value H env (cs ! i) = Inr (v (Suc i))"
    and "\<forall>i < k. cmp_link H (ops ! i) (v i) (v (Suc i)) = Inr True"
    and "cmp_link H (ops ! k) (v k) (v (Suc k)) = Inr b"
    and "b \<longrightarrow> Suc k = length cs"
  shows "eval_expr H env (Compare l ops cs) =
     (Enter (Compare l ops cs) # fst (eval_expr H env l)
        @ concat (map (\<lambda>c. fst (eval_expr H env c)) (take (Suc k) cs)),
      Inr (VBool b))"
proof -
  have left: "snd (eval_expr H env l) = Inr (v 0)"
    using assms(3) by (simp add: eval_value_def)
  note chain = eval_chain_run [OF assms(1,2,4,5,6,7)]
  show ?thesis
  proof (cases "length cs = 1")
    case False
    then show ?thesis
      by (simp add: and_then_ok [OF left] chain)
  next
    case True
    then obtain c where cs: "cs = [c]"
      by (cases cs) auto
    with assms(1) obtain op_node where ops: "ops = [op_node]"
      by (cases ops) auto
    have k: "k = 0"
      using assms(2) cs by simp
    have right: "snd (eval_expr H env c) = Inr (v (Suc 0))"
      using assms(4) cs k by (simp add: eval_value_def)
    have link: "cmp_link H op_node (v 0) (v (Suc 0)) = Inr b"
      using assms(6) ops k by simp
    show ?thesis
      unfolding cs ops eval_expr_single_compare
      using link k
      by (simp add: and_then_ok [OF left] and_then_ok [OF right] cmp_link_def
          split: option.splits)
  qed
qed

theorem compare_chain_witness:
  "eval_expr int_host Map.empty
     (Compare (Constant (CInt 1)) [Lt, Lt] [Constant (CInt 2), Constant (CInt 3)]) =
     ([Enter (Compare (Constant (CInt 1)) [Lt, Lt] [Constant (CInt 2), Constant (CInt 3)]),
       Enter (Constant (CInt 1)), Enter (Constant (CInt 2)), Enter (Constant (CInt 3))],
      Inr (VBool True))
   \<and> eval_expr int_host Map.empty
     (Compare (Constant (CInt 1)) [Lt, Lt] [Constant (CInt 2), Constant (CInt 1)]) =
     ([Enter (Compare (Constant (CInt 1)) [Lt, Lt] [Constant (CInt 2), Constant (CInt 1)]),
       Enter (Constant (CInt 1)), Enter (Constant (CInt 2)), Enter (Constant (CInt 1))],
      Inr (VBool False))
   \<and> eval_expr int_host Map.empty
     (Compare (Constant (CInt 2)) [Lt, Lt] [Constant (CInt 1), Name ''zzz'']) =
     ([Enter (Compare (Constant (CInt 2)) [Lt, Lt] [Constant (CInt 1), Name ''zzz'']),
       Enter (Constant (CInt 2)), Enter (Constant (CInt 1))],
      Inr (VBool False))
   \<and> eval_expr int_host Map.empty (Name ''zzz'') =
     ([Enter (Name ''zzz'')], Inl (ValueError ''Unknown variable or constant: zzz''))"
proof -
  let ?ops = "[Lt, Lt]"
  let ?c1 = "[Constant (CInt 2), Constant (CInt 3)] :: unit expr list"
  let ?c2 = "[Constant (CInt 2), Constant (CInt 1)] :: unit expr list"
  let ?c3 = "[Constant (CInt 1), Name ''zzz''] :: unit expr list"
  let ?v1 = "\<lambda>i. VInt ([1, 2, 3] ! i) :: unit val"
  let ?v2 = "\<lambda>i. VInt ([1, 2, 1] ! i) :: unit val"
  let ?v3 = "\<lambda>i. VInt ([2, 1] ! i) :: unit val"
  have len1: "length ?ops = length ?c1" and len2: "length ?ops = length ?c2"
    and len3: "length ?ops = length ?c3"
    by simp_all
  have k1: "Suc 0 < length ?c1" and k2: "Suc 0 < length ?c2" and k3: "0 < length ?c3"
    by simp_all
  have l1: "eval_value int_host Map.empty (Constant (CInt 1)) = Inr (?v1 0)"
    and l2: "eval_value int_host Map.empty (Constant (CInt 1)) = Inr (?v2 0)"
    and l3: "eval_value int_host Map.empty (Constant (CInt 2)) = Inr (?v3 0)"
    by (simp_all add: eval_value_def)
  have o1: "\<forall>i \<le> Suc 0. eval_value int_host Map.empty (?c1 ! i) = Inr (?v1 (Suc i))"
    and o2: "\<forall>i \<le> Suc 0. eval_value int_host Map.empty (?c2 ! i) = Inr (?v2 (Suc i))"
    and o3: "\<forall>i \<le> 0. eval_value int_host Map.empty (?c3 ! i) = Inr (?v3 (Suc i))"
    by (simp_all add: eval_value_def le_Suc_eq)
  have p1: "\<forall>i < Suc 0. cmp_link int_host (?ops ! i) (?v1 i) (?v1 (Suc i)) = Inr True"
    and p2: "\<forall>i < Suc 0. cmp_link int_host (?ops ! i) (?v2 i) (?v2 (Suc i)) = Inr True"
    and p3: "\<forall>i < 0. cmp_link int_host (?ops ! i) (?v3 i) (?v3 (Suc i)) = Inr True"
    by (simp_all add: cmp_link_def op_lt_def)
  have q1: "cmp_link int_host (?ops ! Suc 0) (?v1 (Suc 0)) (?v1 (Suc (Suc 0))) = Inr True"
    and q2: "cmp_link int_host (?ops ! Suc 0) (?v2 (Suc 0)) (?v2 (Suc (Suc 0))) = Inr False"
    and q3: "cmp_link int_host (?ops ! 0) (?v3 0) (?v3 (Suc 0)) = Inr False"
    by (simp_all add: cmp_link_def op_lt_def)
  have s1: "True \<longrightarrow> Suc (Suc 0) = length ?c1" and s2: "False \<longrightarrow> Suc (Suc 0) = length ?c2"
    and s3: "False \<longrightarrow> Suc 0 = length ?c3"
    by simp_all
  note r1 = compare_chain [OF len1 k1 l1 o1 p1 q1 s1]
  note r2 = compare_chain [OF len2 k2 l2 o2 p2 q2 s2]
  note r3 = compare_chain [OF len3 k3 l3 o3 p3 q3 s3]
  show ?thesis
    apply (intro conjI)
       apply (subst r1, simp)
      apply (subst r2, simp)
     apply (subst r3, simp)
    apply (simp add: ALLOWED_CONSTS_def)
    done
qed

end
